theory Spec2Isabelle
  imports Main "HOL-Library.Multiset"
begin

section \<open>JavaScript values reaching the controllers\<close>

text \<open>
  A JavaScript string is a sequence of UTF-16 code units; a code unit is carried as its
  number. \<open>js\<close> turns an ASCII literal into such a string.
\<close>

type_synonym jsstring = "nat list"

definition js :: "string \<Rightarrow> jsstring" where
  "js s = map of_char s"

text \<open>
  The fields of \<^verbatim>\<open>req.body\<close> and \<^verbatim>\<open>req.params\<close>. \<open>JNum\<close> carries an integer-valued
  number (fractions, and magnitudes from \<open>10^21\<close> on, which JavaScript prints with an
  exponent, are outside the model); \<open>JObj\<close> is an array or an object, carried as the
  text \<^verbatim>\<open>String(v)\<close> gives for it, which is all the controllers can observe of it.
\<close>

datatype jsval = JUndefined | JNull | JBool bool | JNum int | JStr jsstring | JObj jsstring

datatype jstype = TUndefined | TObject | TBoolean | TNumber | TString

fun typeof :: "jsval \<Rightarrow> jstype" where
  "typeof JUndefined = TUndefined"
| "typeof JNull = TObject"
| "typeof (JBool b) = TBoolean"
| "typeof (JNum n) = TNumber"
| "typeof (JStr s) = TString"
| "typeof (JObj s) = TObject"

text \<open>Truthiness, as \<^verbatim>\<open>!v\<close> and \<^verbatim>\<open>v ? a : b\<close> test it.\<close>

fun truthy :: "jsval \<Rightarrow> bool" where
  "truthy JUndefined = False"
| "truthy JNull = False"
| "truthy (JBool b) = b"
| "truthy (JNum n) = (n \<noteq> 0)"
| "truthy (JStr s) = (s \<noteq> [])"
| "truthy (JObj s) = True"

text \<open>The code units that \<^verbatim>\<open>trim\<close> and \<^verbatim>\<open>parseInt\<close> skip: WhiteSpace and LineTerminator.\<close>

definition isWhiteSpace :: "nat \<Rightarrow> bool" where
  "isWhiteSpace c \<longleftrightarrow>
     c \<in> set [9, 10, 11, 12, 13, 32, 160, 5760, 8232, 8233, 8239, 8287, 12288, 65279]
     \<or> (8192 \<le> c \<and> c \<le> 8202)"

definition trim :: "jsstring \<Rightarrow> jsstring" where
  "trim s = rev (dropWhile isWhiteSpace (rev (dropWhile isWhiteSpace s)))"

fun digits10 :: "nat \<Rightarrow> jsstring" where
  "digits10 n = (if n < 10 then [48 + n] else digits10 (n div 10) @ [48 + n mod 10])"

declare digits10.simps [simp del]

definition numberToString :: "int \<Rightarrow> jsstring" where
  "numberToString n = (if n < 0 then 45 # digits10 (nat (- n)) else digits10 (nat n))"

text \<open>\<^verbatim>\<open>String(v)\<close>, which \<^verbatim>\<open>parseInt(v, 10)\<close> applies to its argument first.\<close>

fun toString :: "jsval \<Rightarrow> jsstring" where
  "toString JUndefined = js ''undefined''"
| "toString JNull = js ''null''"
| "toString (JBool b) = (if b then js ''true'' else js ''false'')"
| "toString (JNum n) = numberToString n"
| "toString (JStr s) = s"
| "toString (JObj s) = s"

definition isDigit :: "nat \<Rightarrow> bool" where
  "isDigit c \<longleftrightarrow> 48 \<le> c \<and> c \<le> 57"

definition digitsValue :: "jsstring \<Rightarrow> nat" where
  "digitsValue z = foldl (\<lambda>a c. 10 * a + (c - 48)) 0 z"

text \<open>
  \<^verbatim>\<open>parseInt(v, 10)\<close>: leading white space is skipped, one sign is read, then the longest
  run of decimal digits; with no digit the result is \<^verbatim>\<open>NaN\<close>, here \<open>None\<close>, so that
  \<^verbatim>\<open>Number.isNaN(parseInt(v, 10))\<close> is \<open>parseInt v = None\<close>. The value is the exact
  integer the digits denote (JavaScript rounds it from \<open>2^53\<close> on).
\<close>

definition parseInt :: "jsval \<Rightarrow> int option" where
  "parseInt v =
     (let s = dropWhile isWhiteSpace (toString v);
          neg = (s \<noteq> [] \<and> hd s = 45);
          r = (if s \<noteq> [] \<and> (hd s = 43 \<or> hd s = 45) then tl s else s);
          z = takeWhile isDigit r
      in if z = [] then None
         else Some (if neg then - int (digitsValue z) else int (digitsValue z)))"

text \<open>
  The test all three controllers apply to a required name or title:
  \<^verbatim>\<open>!v || typeof v !== 'string' || v.trim() === ''\<close>.
\<close>

definition blank :: "jsval \<Rightarrow> bool" where
  "blank v \<longleftrightarrow> \<not> truthy v \<or> typeof v \<noteq> TString \<or> trim (toString v) = []"

section \<open>The relational store\<close>

text \<open>
  The three tables of the migration. Ids come from a sequence per table (\<^verbatim>\<open>SERIAL\<close>),
  \<^verbatim>\<open>createdAt\<close> is the time of the insert. The column \<^verbatim>\<open>updatedAt\<close> is written by the
  storage layer alone and read by no controller; it is left out. Ids are mathematical
  integers: the 32-bit range of the column is not modelled, and neither is a failure of
  the storage layer itself (the \<^verbatim>\<open>catch\<close> branch that hands the error to \<^verbatim>\<open>next\<close>).
\<close>

record board =
  board_id :: int
  board_name :: jsstring
  board_createdAt :: nat

record status =
  status_id :: int
  status_name :: jsstring
  status_createdAt :: nat

record task =
  task_id :: int
  task_boardId :: int
  task_title :: jsstring
  task_description :: "jsstring option"
  task_statusId :: "int option"
  task_createdAt :: nat

record db =
  boards :: "board list"
  tasks :: "task list"
  statuses :: "status list"
  board_seq :: int
  task_seq :: int
  status_seq :: int

definition empty_db :: db where
  "empty_db = \<lparr>boards = [], tasks = [], statuses = [], board_seq = 1, task_seq = 1, status_seq = 1\<rparr>"

subsection \<open>The queries the controllers issue\<close>

definition board_findUnique_id :: "int \<Rightarrow> db \<Rightarrow> board option" where
  "board_findUnique_id i d = find (\<lambda>b. board_id b = i) (boards d)"

definition board_findUnique_name :: "jsstring \<Rightarrow> db \<Rightarrow> board option" where
  "board_findUnique_name n d = find (\<lambda>b. board_name b = n) (boards d)"

definition board_findFirst_name_not_id :: "jsstring \<Rightarrow> int \<Rightarrow> db \<Rightarrow> board option" where
  "board_findFirst_name_not_id n i d = find (\<lambda>b. board_name b = n \<and> \<not> board_id b = i) (boards d)"

definition board_create :: "jsstring \<Rightarrow> nat \<Rightarrow> db \<Rightarrow> board \<times> db" where
  "board_create n now d =
     (let b = \<lparr>board_id = board_seq d, board_name = n, board_createdAt = now\<rparr>
      in (b, d\<lparr>boards := boards d @ [b], board_seq := board_seq d + 1\<rparr>))"

definition board_update_name :: "int \<Rightarrow> jsstring \<Rightarrow> db \<Rightarrow> db" where
  "board_update_name i n d =
     d\<lparr>boards := map (\<lambda>b. if board_id b = i then b\<lparr>board_name := n\<rparr> else b) (boards d)\<rparr>"

definition board_delete :: "int \<Rightarrow> db \<Rightarrow> db" where
  "board_delete i d = d\<lparr>boards := filter (\<lambda>b. board_id b \<noteq> i) (boards d)\<rparr>"

text \<open>
  \<^verbatim>\<open>findMany({ include: { tasks: true }, orderBy: { createdAt: 'desc' } })\<close>. The order of
  two boards created at the same instant is the store's choice; here the later row first.
\<close>

definition board_findMany_tasks_desc :: "db \<Rightarrow> (board \<times> task list) list" where
  "board_findMany_tasks_desc d =
     map (\<lambda>b. (b, filter (\<lambda>t. task_boardId t = board_id b) (tasks d)))
       (rev (sort_key board_createdAt (boards d)))"

definition status_findMany_asc :: "db \<Rightarrow> status list" where
  "status_findMany_asc d = sort_key status_createdAt (statuses d)"

definition status_findUnique_id :: "int \<Rightarrow> db \<Rightarrow> status option" where
  "status_findUnique_id i d = find (\<lambda>s. status_id s = i) (statuses d)"

definition status_findUnique_name :: "jsstring \<Rightarrow> db \<Rightarrow> status option" where
  "status_findUnique_name n d = find (\<lambda>s. status_name s = n) (statuses d)"

definition status_create :: "jsstring \<Rightarrow> nat \<Rightarrow> db \<Rightarrow> status \<times> db" where
  "status_create n now d =
     (let s = \<lparr>status_id = status_seq d, status_name = n, status_createdAt = now\<rparr>
      in (s, d\<lparr>statuses := statuses d @ [s], status_seq := status_seq d + 1\<rparr>))"

definition status_update_name :: "int \<Rightarrow> jsstring \<Rightarrow> db \<Rightarrow> db" where
  "status_update_name i n d =
     d\<lparr>statuses := map (\<lambda>s. if status_id s = i then s\<lparr>status_name := n\<rparr> else s) (statuses d)\<rparr>"

definition status_delete :: "int \<Rightarrow> db \<Rightarrow> db" where
  "status_delete i d = d\<lparr>statuses := filter (\<lambda>s. status_id s \<noteq> i) (statuses d)\<rparr>"

definition task_findUnique_id :: "int \<Rightarrow> db \<Rightarrow> task option" where
  "task_findUnique_id i d = find (\<lambda>t. task_id t = i) (tasks d)"

text \<open>\<^verbatim>\<open>task.deleteMany({ where: { boardId } })\<close>\<close>

definition task_deleteMany_boardId :: "int \<Rightarrow> db \<Rightarrow> db" where
  "task_deleteMany_boardId i d = d\<lparr>tasks := filter (\<lambda>t. task_boardId t \<noteq> i) (tasks d)\<rparr>"

text \<open>\<^verbatim>\<open>task.updateMany({ where: { statusId }, data: { statusId: null } })\<close>\<close>

definition task_updateMany_statusId_null :: "int \<Rightarrow> db \<Rightarrow> db" where
  "task_updateMany_statusId_null i d =
     d\<lparr>tasks := map (\<lambda>t. if task_statusId t = Some i then t\<lparr>task_statusId := None\<rparr> else t) (tasks d)\<rparr>"

definition task_delete :: "int \<Rightarrow> db \<Rightarrow> db" where
  "task_delete i d = d\<lparr>tasks := filter (\<lambda>t. task_id t \<noteq> i) (tasks d)\<rparr>"

text \<open>
  The \<^verbatim>\<open>data\<close> object of \<^verbatim>\<open>task.update\<close>: a key that was never set is \<open>None\<close>;
  \<^verbatim>\<open>description\<close> can be set to \<^verbatim>\<open>null\<close>, which is \<open>Some None\<close>.
\<close>

datatype relation_write = Connect int | Disconnect

record task_data =
  data_title :: "jsstring option"
  data_description :: "jsstring option option"
  data_board :: "relation_write option"
  data_status :: "relation_write option"

definition no_data :: task_data where
  "no_data = \<lparr>data_title = None, data_description = None, data_board = None, data_status = None\<rparr>"

definition apply_data :: "task_data \<Rightarrow> task \<Rightarrow> task" where
  "apply_data dt t =
     t\<lparr>task_title := (case data_title dt of None \<Rightarrow> task_title t | Some x \<Rightarrow> x),
       task_description := (case data_description dt of None \<Rightarrow> task_description t | Some x \<Rightarrow> x),
       task_boardId := (case data_board dt of Some (Connect i) \<Rightarrow> i | _ \<Rightarrow> task_boardId t),
       task_statusId := (case data_status dt of None \<Rightarrow> task_statusId t
                          | Some (Connect i) \<Rightarrow> Some i | Some Disconnect \<Rightarrow> None)\<rparr>"

text \<open>
  \<^verbatim>\<open>task.create\<close>: the controller always supplies the title, the description (possibly
  \<^verbatim>\<open>null\<close>) and the board to connect; the status to connect is optional.
\<close>

definition task_create :: "jsstring \<Rightarrow> jsstring option \<Rightarrow> int \<Rightarrow> int option \<Rightarrow> nat \<Rightarrow> db \<Rightarrow> task \<times> db" where
  "task_create title description boardId statusId now d =
     (let t = \<lparr>task_id = task_seq d, task_boardId = boardId, task_title = title,
                task_description = description, task_statusId = statusId, task_createdAt = now\<rparr>
      in (t, d\<lparr>tasks := tasks d @ [t], task_seq := task_seq d + 1\<rparr>))"

definition task_update :: "int \<Rightarrow> task_data \<Rightarrow> db \<Rightarrow> db" where
  "task_update i dt d =
     d\<lparr>tasks := map (\<lambda>t. if task_id t = i then apply_data dt t else t) (tasks d)\<rparr>"

section \<open>Responses\<close>

text \<open>\<^verbatim>\<open>res.status(c).json(b)\<close> is \<open>Response c b\<close>; \<^verbatim>\<open>{ error: m }\<close> is \<open>Error m\<close>.\<close>

datatype json =
    Error string
  | Message string
  | Board_json board
  | Status_json status
  | Task_json task
  | Boards_json "(board \<times> task list) list"
  | Statuses_json "status list"

datatype response = Response nat json

section \<open>Board controller\<close>

text \<open>
  Each controller takes the fields it destructures from the request, the store, and for
  an insert the time; it returns the response and the store after it. The path parameter
  \<^verbatim>\<open>req.params.id\<close> is written \<open>id'\<close>.
\<close>

definition getBoards :: "db \<Rightarrow> response \<times> db" where
  "getBoards d = (Response 200 (Boards_json (board_findMany_tasks_desc d)), d)"

definition createBoard :: "jsval \<Rightarrow> nat \<Rightarrow> db \<Rightarrow> response \<times> db" where
  "createBoard name now d =
     (if blank name then (Response 400 (Error ''Board name is required''), d)
      else let trimmedName = trim (toString name) in
        (case board_findUnique_name trimmedName d of
           Some existingByName \<Rightarrow> (Response 400 (Error ''Board name already exists''), d)
         | None \<Rightarrow>
             (let (board, d') = board_create trimmedName now d
              in (Response 201 (Board_json board), d'))))"

text \<open>\<^verbatim>\<open>board.update\<close> returns the row it wrote: the row found, with the new name.\<close>

definition updateBoard :: "jsval \<Rightarrow> jsval \<Rightarrow> db \<Rightarrow> response \<times> db" where
  "updateBoard id' name d =
     (case parseInt id' of
        None \<Rightarrow> (Response 400 (Error ''Invalid board id''), d)
      | Some boardId \<Rightarrow>
          (if blank name then (Response 400 (Error ''Board name is required''), d)
           else let trimmedName = trim (toString name) in
             (case board_findUnique_id boardId d of
                None \<Rightarrow> (Response 404 (Error ''Board not found''), d)
              | Some existing \<Rightarrow>
                  (case board_findFirst_name_not_id trimmedName boardId d of
                     Some conflict \<Rightarrow>
                       (Response 400 (Error ''Another board with this name already exists''), d)
                   | None \<Rightarrow>
                       (Response 200 (Board_json (existing\<lparr>board_name := trimmedName\<rparr>)),
                        board_update_name boardId trimmedName d)))))"

definition deleteBoard :: "jsval \<Rightarrow> db \<Rightarrow> response \<times> db" where
  "deleteBoard id' d =
     (case parseInt id' of
        None \<Rightarrow> (Response 400 (Error ''Invalid board id''), d)
      | Some boardId \<Rightarrow>
          (case board_findUnique_id boardId d of
             None \<Rightarrow> (Response 404 (Error ''Board not found''), d)
           | Some existing \<Rightarrow>
               (Response 200 (Message ''Board and its tasks deleted successfully''),
                board_delete boardId (task_deleteMany_boardId boardId d))))"

section \<open>Status controller\<close>

definition getStatuses :: "db \<Rightarrow> response \<times> db" where
  "getStatuses d = (Response 200 (Statuses_json (status_findMany_asc d)), d)"

definition createStatus :: "jsval \<Rightarrow> nat \<Rightarrow> db \<Rightarrow> response \<times> db" where
  "createStatus name now d =
     (if blank name then (Response 400 (Error ''Status name is required''), d)
      else let trimmed = trim (toString name) in
        (case status_findUnique_name trimmed d of
           Some existing \<Rightarrow> (Response 400 (Error ''Status name already exists''), d)
         | None \<Rightarrow>
             (let (status, d') = status_create trimmed now d
              in (Response 201 (Status_json status), d'))))"

definition updateStatus :: "jsval \<Rightarrow> jsval \<Rightarrow> db \<Rightarrow> response \<times> db" where
  "updateStatus id' name d =
     (case parseInt id' of
        None \<Rightarrow> (Response 400 (Error ''Invalid status id''), d)
      | Some statusId \<Rightarrow>
          (if blank name then (Response 400 (Error ''Status name is required''), d)
           else let trimmed = trim (toString name) in
             (case status_findUnique_id statusId d of
                None \<Rightarrow> (Response 404 (Error ''Status not found''), d)
              | Some existing \<Rightarrow>
                  (let conflict = status_findUnique_name trimmed d in
                   if (case conflict of None \<Rightarrow> False | Some c \<Rightarrow> status_id c \<noteq> statusId)
                   then (Response 400 (Error ''Another status with this name already exists''), d)
                   else (Response 200 (Status_json (existing\<lparr>status_name := trimmed\<rparr>)),
                         status_update_name statusId trimmed d)))))"

definition deleteStatus :: "jsval \<Rightarrow> db \<Rightarrow> response \<times> db" where
  "deleteStatus id' d =
     (case parseInt id' of
        None \<Rightarrow> (Response 400 (Error ''Invalid status id''), d)
      | Some statusId \<Rightarrow>
          (case status_findUnique_id statusId d of
             None \<Rightarrow> (Response 404 (Error ''Status not found''), d)
           | Some existing \<Rightarrow>
               (Response 200 (Message ''Status deleted and tasks unlinked''),
                status_delete statusId (task_updateMany_statusId_null statusId d))))"

section \<open>Task controller\<close>

text \<open>An \<^verbatim>\<open>Error\<close> thrown with a \<^verbatim>\<open>status\<close> field.\<close>

datatype thrown = Thrown string nat

fun thrown_message :: "thrown \<Rightarrow> string" where
  "thrown_message (Thrown m c) = m"

fun thrown_status :: "thrown \<Rightarrow> nat" where
  "thrown_status (Thrown m c) = c"

text \<open>
  \<^verbatim>\<open>resolveStatus({ statusId, statusName })\<close>: \<^verbatim>\<open>statusId == undefined || statusId == null\<close>
  holds of \<^verbatim>\<open>undefined\<close> and \<^verbatim>\<open>null\<close> alone. The name is received and never read.
\<close>

definition resolveStatus :: "jsval \<Rightarrow> jsval \<Rightarrow> db \<Rightarrow> thrown + status" where
  "resolveStatus statusId statusName d =
     (if statusId = JUndefined \<or> statusId = JNull then Inl (Thrown ''Status not found'' 404)
      else case parseInt statusId of
        None \<Rightarrow> Inl (Thrown ''statusId must be a valid integer'' 400)
      | Some parsed \<Rightarrow>
          (case status_findUnique_id parsed d of
             None \<Rightarrow> Inl (Thrown ''Status not found'' 404)
           | Some s \<Rightarrow> Inr s))"

text \<open>\<^verbatim>\<open>res.status(e.status || 400).json({ error: e.message })\<close>\<close>

definition thrown_response :: "thrown \<Rightarrow> response" where
  "thrown_response e =
     Response (if thrown_status e = 0 then 400 else thrown_status e) (Error (thrown_message e))"

text \<open>
  \<^verbatim>\<open>createTask\<close>. A status that \<^verbatim>\<open>resolveStatus\<close> returns is a row, hence truthy, so
  \<^verbatim>\<open>if (status)\<close> always connects it.
\<close>

definition createTask :: "jsval \<Rightarrow> jsval \<Rightarrow> jsval \<Rightarrow> jsval \<Rightarrow> jsval \<Rightarrow> nat \<Rightarrow> db \<Rightarrow> response \<times> db" where
  "createTask title description boardId statusId statusName now d =
     (if blank title then (Response 400 (Error ''Task title is required''), d)
      else case parseInt boardId of
        None \<Rightarrow> (Response 400 (Error ''Valid boardId is required''), d)
      | Some parsedBoardId \<Rightarrow>
          (case board_findUnique_id parsedBoardId d of
             None \<Rightarrow> (Response 404 (Error ''Board not found''), d)
           | Some board \<Rightarrow>
               (case resolveStatus statusId statusName d of
                  Inl e \<Rightarrow> (thrown_response e, d)
                | Inr status \<Rightarrow>
                    (let (task, d') =
                       task_create (trim (toString title))
                         (if truthy description then Some (trim (toString description)) else None)
                         parsedBoardId (Some (status_id status)) now d
                     in (Response 201 (Task_json task), d')))))"

text \<open>
  \<^verbatim>\<open>updateTask\<close> fills \<^verbatim>\<open>data\<close> in four blocks, each of which may answer and return
  early (\<open>Inl\<close>) or hand the data on (\<open>Inr\<close>).
\<close>

definition update_title :: "jsval \<Rightarrow> task_data \<Rightarrow> response + task_data" where
  "update_title title dt =
     (if title \<noteq> JUndefined then
        if blank title
        then Inl (Response 400 (Error ''Task title, if provided, must be a non-empty string''))
        else Inr (dt\<lparr>data_title := Some (trim (toString title))\<rparr>)
      else Inr dt)"

definition update_description :: "jsval \<Rightarrow> task_data \<Rightarrow> task_data" where
  "update_description description dt =
     (if description \<noteq> JUndefined then
        dt\<lparr>data_description :=
             Some (if description = JNull then None else Some (trim (toString description)))\<rparr>
      else dt)"

definition update_board :: "jsval \<Rightarrow> db \<Rightarrow> task_data \<Rightarrow> response + task_data" where
  "update_board boardId d dt =
     (if boardId \<noteq> JUndefined then
        case parseInt boardId of
          None \<Rightarrow> Inl (Response 400 (Error ''boardId must be a valid integer''))
        | Some parsedBoardId \<Rightarrow>
            (case board_findUnique_id parsedBoardId d of
               None \<Rightarrow> Inl (Response 404 (Error ''Board not found''))
             | Some board \<Rightarrow> Inr (dt\<lparr>data_board := Some (Connect parsedBoardId)\<rparr>))
      else Inr dt)"

definition update_status :: "jsval \<Rightarrow> jsval \<Rightarrow> db \<Rightarrow> task_data \<Rightarrow> response + task_data" where
  "update_status statusId statusName d dt =
     (if statusId \<noteq> JUndefined \<or> statusName \<noteq> JUndefined then
        if statusId = JNull \<or> statusName = JNull
        then Inr (dt\<lparr>data_status := Some Disconnect\<rparr>)
        else case resolveStatus statusId statusName d of
          Inl e \<Rightarrow> Inl (thrown_response e)
        | Inr status \<Rightarrow> Inr (dt\<lparr>data_status := Some (Connect (status_id status))\<rparr>)
      else Inr dt)"

definition updateTask :: "jsval \<Rightarrow> jsval \<Rightarrow> jsval \<Rightarrow> jsval \<Rightarrow> jsval \<Rightarrow> jsval \<Rightarrow> db \<Rightarrow> response \<times> db" where
  "updateTask id' title description statusId statusName boardId d =
     (case parseInt id' of
        None \<Rightarrow> (Response 400 (Error ''Invalid task id''), d)
      | Some taskId \<Rightarrow>
          (case task_findUnique_id taskId d of
             None \<Rightarrow> (Response 404 (Error ''Task not found''), d)
           | Some existing \<Rightarrow>
               (case update_title title no_data of
                  Inl r \<Rightarrow> (r, d)
                | Inr data1 \<Rightarrow>
                    (case update_board boardId d (update_description description data1) of
                       Inl r \<Rightarrow> (r, d)
                     | Inr data3 \<Rightarrow>
                         (case update_status statusId statusName d data3 of
                            Inl r \<Rightarrow> (r, d)
                          | Inr data \<Rightarrow>
                              (Response 200 (Task_json (apply_data data existing)),
                               task_update taskId data d))))))"

definition deleteTask :: "jsval \<Rightarrow> db \<Rightarrow> response \<times> db" where
  "deleteTask id' d =
     (case parseInt id' of
        None \<Rightarrow> (Response 400 (Error ''Invalid task id''), d)
      | Some taskId \<Rightarrow>
          (case task_findUnique_id taskId d of
             None \<Rightarrow> (Response 404 (Error ''Task not found''), d)
           | Some existing \<Rightarrow>
               (Response 200 (Message ''Task deleted successfully''), task_delete taskId d)))"

section \<open>The store operations and the reachable states\<close>

text \<open>
  One constructor per route; the fields are what the controller reads of
  \<^verbatim>\<open>req.params\<close> and \<^verbatim>\<open>req.body\<close>, in the order of its destructuring.
\<close>

datatype request =
    GET_boards
  | POST_boards jsval
  | PUT_boards jsval jsval
  | DELETE_boards jsval
  | POST_tasks jsval jsval jsval jsval jsval
  | PUT_tasks jsval jsval jsval jsval jsval jsval
  | DELETE_tasks jsval
  | GET_statuses
  | POST_statuses jsval
  | PUT_statuses jsval jsval
  | DELETE_statuses jsval

text \<open>
  \<open>handle now r d\<close> hands request \<open>r\<close> to the controller of its route as it stands, at
  time \<open>now\<close> on store \<open>d\<close>: the store operation itself, on any input whatever. The
  reachable states are those that a sequence of such calls produces from the empty store;
  they include every state the mounted router below can produce, which only ever calls a
  controller on a request that has passed validation.
\<close>

fun handle :: "nat \<Rightarrow> request \<Rightarrow> db \<Rightarrow> response \<times> db" where
  "handle now GET_boards d = getBoards d"
| "handle now (POST_boards name) d = createBoard name now d"
| "handle now (PUT_boards id' name) d = updateBoard id' name d"
| "handle now (DELETE_boards id') d = deleteBoard id' d"
| "handle now (POST_tasks title description boardId statusId statusName) d =
     createTask title description boardId statusId statusName now d"
| "handle now (PUT_tasks id' title description statusId statusName boardId) d =
     updateTask id' title description statusId statusName boardId d"
| "handle now (DELETE_tasks id') d = deleteTask id' d"
| "handle now GET_statuses d = getStatuses d"
| "handle now (POST_statuses name) d = createStatus name now d"
| "handle now (PUT_statuses id' name) d = updateStatus id' name d"
| "handle now (DELETE_statuses id') d = deleteStatus id' d"

text \<open>Serving a sequence of timed requests, one after the other.\<close>

fun serve_all :: "(nat \<times> request) list \<Rightarrow> db \<Rightarrow> db" where
  "serve_all [] d = d"
| "serve_all ((now, r) # rs) d = serve_all rs (snd (handle now r d))"

inductive reachable :: "db \<Rightarrow> bool" where
  start: "reachable empty_db"
| serve: "reachable d \<Longrightarrow> reachable (snd (handle now r d))"

section \<open>Request validation and the mounted router\<close>

text \<open>
  The router that the server mounts puts the \<^verbatim>\<open>validate\<close> middleware in front of every
  controller but the two lists. \<^verbatim>\<open>schema.validate(x, { stripUnknown: true, convert: true })\<close>
  gives an error, whose message is answered with status 400, or the converted value,
  which replaces the request part before the controller runs. A result is \<open>Inl\<close> the
  message or \<open>Inr\<close> the value.

  The schema library is not part of the repository. Its rules are written out below as
  the schemas use them; its one operation taken as a parameter is how \<^verbatim>\<open>Joi.number()\<close>,
  converting, reads a string: \<open>c s\<close> is \<open>Whole n\<close> when the string is read as the integer
  \<open>n\<close>, \<open>Fraction\<close> when as a number that is not an integer, \<open>Unsafe\<close> when as a number
  it refuses as unsafe, and \<open>Unconverted\<close> when the string is no numeral and stays a
  string.
\<close>

datatype coerced = Unconverted | Unsafe | Fraction | Whole int

definition max_safe_integer :: int where
  "max_safe_integer = 9007199254740991"

text \<open>The key of the failing value, in double quotes, starts every message.\<close>

definition joi_label :: "string \<Rightarrow> string" where
  "joi_label key = CHR 0x22 # key @ [CHR 0x22]"

text \<open>
  \<^verbatim>\<open>Joi.number().integer().positive()\<close> on a value that is present: a number is taken as
  it is, a string is converted, anything else is no number; the number must be safe, an
  integer, and greater than zero.
\<close>

definition joi_number_integer_positive :: "(jsstring \<Rightarrow> coerced) \<Rightarrow> string \<Rightarrow> jsval \<Rightarrow> string + jsval" where
  "joi_number_integer_positive c key v =
     (case (case v of JNum n \<Rightarrow> Whole n | JStr s \<Rightarrow> c s | _ \<Rightarrow> Unconverted) of
        Unconverted \<Rightarrow> Inl (joi_label key @ '' must be a number'')
      | Unsafe \<Rightarrow> Inl (joi_label key @ '' must be a safe number'')
      | Fraction \<Rightarrow> Inl (joi_label key @ '' must be an integer'')
      | Whole n \<Rightarrow>
          if n < - max_safe_integer \<or> max_safe_integer < n
          then Inl (joi_label key @ '' must be a safe number'')
          else if n \<le> 0 then Inl (joi_label key @ '' must be a positive number'')
          else Inr (JNum n))"

text \<open>
  \<^verbatim>\<open>Joi.string().trim()\<close> on a value that is present: a string is trimmed, and the empty
  string is refused; nothing else is a string.
\<close>

definition joi_string_trim :: "string \<Rightarrow> jsval \<Rightarrow> string + jsval" where
  "joi_string_trim key v =
     (case v of
        JStr s \<Rightarrow>
          if trim s = [] then Inl (joi_label key @ '' is not allowed to be empty'')
          else Inr (JStr (trim s))
      | _ \<Rightarrow> Inl (joi_label key @ '' must be a string''))"

text \<open>\<^verbatim>\<open>.min(1)\<close> after it: the trimmed string has at least one code unit.\<close>

definition joi_string_trim_min1 :: "string \<Rightarrow> jsval \<Rightarrow> string + jsval" where
  "joi_string_trim_min1 key v =
     (case joi_string_trim key v of
        Inl message \<Rightarrow> Inl message
      | Inr v' \<Rightarrow>
          if length (toString v') < 1
          then Inl (joi_label key @ '' length must be at least 1 characters long'')
          else Inr v')"

text \<open>
  \<^verbatim>\<open>Joi.string().allow(null, '')\<close>: \<^verbatim>\<open>null\<close> and the empty string pass as they are, and so
  does any other string, untrimmed.
\<close>

definition joi_string_allow_null_empty :: "string \<Rightarrow> jsval \<Rightarrow> string + jsval" where
  "joi_string_allow_null_empty key v =
     (if v = JNull \<or> v = JStr [] then Inr v
      else case v of
        JStr s \<Rightarrow> Inr v
      | _ \<Rightarrow> Inl (joi_label key @ '' must be a string''))"

text \<open>
  \<^verbatim>\<open>Joi.allow(a, b)\<close> is \<^verbatim>\<open>Joi.any().allow(a, b)\<close>: it names values allowed in addition to
  those of the type \<^verbatim>\<open>any\<close>, which admits every value already. The keys of the update
  schema written this way are not constrained and not converted.
\<close>

definition joi_allow :: "string \<Rightarrow> jsval \<Rightarrow> string + jsval" where
  "joi_allow key v = Inr v"

text \<open>\<^verbatim>\<open>.required()\<close> and \<^verbatim>\<open>.optional()\<close> decide what an absent key is.\<close>

definition joi_required :: "(string \<Rightarrow> jsval \<Rightarrow> string + jsval) \<Rightarrow> string \<Rightarrow> jsval \<Rightarrow> string + jsval" where
  "joi_required schema key v =
     (if v = JUndefined then Inl (joi_label key @ '' is required'') else schema key v)"

definition joi_optional :: "(string \<Rightarrow> jsval \<Rightarrow> string + jsval) \<Rightarrow> string \<Rightarrow> jsval \<Rightarrow> string + jsval" where
  "joi_optional schema key v = (if v = JUndefined then Inr JUndefined else schema key v)"

subsection \<open>The schemas\<close>

text \<open>
  An object schema checks its keys in the order they are written and stops at the first
  error. Each schema takes the values of its keys and gives them back converted.
\<close>

definition idParam :: "(jsstring \<Rightarrow> coerced) \<Rightarrow> jsval \<Rightarrow> string + jsval" where
  "idParam c id' = joi_required (joi_number_integer_positive c) ''id'' id'"

definition boardCreateSchema :: "jsval \<Rightarrow> string + jsval" where
  "boardCreateSchema name = joi_required joi_string_trim_min1 ''name'' name"

definition statusCreateSchema :: "jsval \<Rightarrow> string + jsval" where
  "statusCreateSchema name = joi_required joi_string_trim_min1 ''name'' name"

definition taskCreateSchema ::
  "(jsstring \<Rightarrow> coerced) \<Rightarrow> jsval \<Rightarrow> jsval \<Rightarrow> jsval \<Rightarrow> jsval \<Rightarrow> jsval
     \<Rightarrow> string + (jsval \<times> jsval \<times> jsval \<times> jsval \<times> jsval)" where
  "taskCreateSchema c title description boardId statusId statusName =
     (case joi_required joi_string_trim_min1 ''title'' title of
        Inl message \<Rightarrow> Inl message
      | Inr title' \<Rightarrow>
     (case joi_optional joi_string_allow_null_empty ''description'' description of
        Inl message \<Rightarrow> Inl message
      | Inr description' \<Rightarrow>
     (case joi_required (joi_number_integer_positive c) ''boardId'' boardId of
        Inl message \<Rightarrow> Inl message
      | Inr boardId' \<Rightarrow>
     (case joi_optional (joi_number_integer_positive c) ''statusId'' statusId of
        Inl message \<Rightarrow> Inl message
      | Inr statusId' \<Rightarrow>
     (case joi_optional joi_string_trim ''statusName'' statusName of
        Inl message \<Rightarrow> Inl message
      | Inr statusName' \<Rightarrow>
          Inr (title', description', boardId', statusId', statusName'))))))"

definition taskUpdateSchema ::
  "(jsstring \<Rightarrow> coerced) \<Rightarrow> jsval \<Rightarrow> jsval \<Rightarrow> jsval \<Rightarrow> jsval \<Rightarrow> jsval
     \<Rightarrow> string + (jsval \<times> jsval \<times> jsval \<times> jsval \<times> jsval)" where
  "taskUpdateSchema c title description boardId statusId statusName =
     (case joi_optional joi_string_trim_min1 ''title'' title of
        Inl message \<Rightarrow> Inl message
      | Inr title' \<Rightarrow>
     (case joi_optional joi_allow ''description'' description of
        Inl message \<Rightarrow> Inl message
      | Inr description' \<Rightarrow>
     (case joi_optional (joi_number_integer_positive c) ''boardId'' boardId of
        Inl message \<Rightarrow> Inl message
      | Inr boardId' \<Rightarrow>
     (case joi_optional joi_allow ''statusId'' statusId of
        Inl message \<Rightarrow> Inl message
      | Inr statusId' \<Rightarrow>
     (case joi_optional joi_allow ''statusName'' statusName of
        Inl message \<Rightarrow> Inl message
      | Inr statusName' \<Rightarrow>
          Inr (title', description', boardId', statusId', statusName'))))))"

subsection \<open>The middleware and the router\<close>

text \<open>
  \<^verbatim>\<open>validate\<close>: an error is answered 400 with its message and the controller never
  runs; otherwise the request goes on with the converted value. No route gives a schema
  for the query.
\<close>

definition validate :: "string + 'a \<Rightarrow> ('a \<Rightarrow> db \<Rightarrow> response \<times> db) \<Rightarrow> db \<Rightarrow> response \<times> db" where
  "validate result continue d =
     (case result of
        Inl message \<Rightarrow> (Response 400 (Error message), d)
      | Inr v \<Rightarrow> continue v d)"

text \<open>
  \<open>router c now r d\<close> serves request \<open>r\<close> as the mounted router does: the path
  parameters are validated first, then the body, then the controller is called on the
  converted values.
\<close>

fun router :: "(jsstring \<Rightarrow> coerced) \<Rightarrow> nat \<Rightarrow> request \<Rightarrow> db \<Rightarrow> response \<times> db" where
  "router c now GET_boards d = getBoards d"
| "router c now (POST_boards name) d =
     validate (boardCreateSchema name) (\<lambda>name'. createBoard name' now) d"
| "router c now (PUT_boards id' name) d =
     validate (idParam c id')
       (\<lambda>id''. validate (boardCreateSchema name) (\<lambda>name'. updateBoard id'' name')) d"
| "router c now (DELETE_boards id') d = validate (idParam c id') deleteBoard d"
| "router c now (POST_tasks title description boardId statusId statusName) d =
     validate (taskCreateSchema c title description boardId statusId statusName)
       (\<lambda>(title', description', boardId', statusId', statusName').
          createTask title' description' boardId' statusId' statusName' now) d"
| "router c now (PUT_tasks id' title description statusId statusName boardId) d =
     validate (idParam c id')
       (\<lambda>id''. validate (taskUpdateSchema c title description boardId statusId statusName)
          (\<lambda>(title', description', boardId', statusId', statusName').
             updateTask id'' title' description' statusId' statusName' boardId')) d"
| "router c now (DELETE_tasks id') d = validate (idParam c id') deleteTask d"
| "router c now GET_statuses d = getStatuses d"
| "router c now (POST_statuses name) d =
     validate (statusCreateSchema name) (\<lambda>name'. createStatus name' now) d"
| "router c now (PUT_statuses id' name) d =
     validate (idParam c id')
       (\<lambda>id''. validate (statusCreateSchema name) (\<lambda>name'. updateStatus id'' name')) d"
| "router c now (DELETE_statuses id') d = validate (idParam c id') deleteStatus d"

section \<open>Invariants of the store\<close>

text \<open>
  Referential integrity: the board of every task exists, and so does its status when it
  has one.
\<close>

definition ref_ok :: "db \<Rightarrow> bool" where
  "ref_ok d \<longleftrightarrow>
     (\<forall>t \<in> set (tasks d).
        (\<exists>b \<in> set (boards d). board_id b = task_boardId t)
        \<and> (case task_statusId t of
             None \<Rightarrow> True
           | Some s \<Rightarrow> \<exists>st \<in> set (statuses d). status_id st = s))"

text \<open>Ids are unique in each table and below the table's sequence.\<close>

definition ids_ok :: "db \<Rightarrow> bool" where
  "ids_ok d \<longleftrightarrow>
     distinct (map board_id (boards d)) \<and> (\<forall>b \<in> set (boards d). board_id b < board_seq d)
     \<and> distinct (map status_id (statuses d)) \<and> (\<forall>s \<in> set (statuses d). status_id s < status_seq d)
     \<and> distinct (map task_id (tasks d)) \<and> (\<forall>t \<in> set (tasks d). task_id t < task_seq d)"

text \<open>Board and status names are unique, non-empty and trimmed.\<close>

definition names_ok :: "db \<Rightarrow> bool" where
  "names_ok d \<longleftrightarrow>
     distinct (map board_name (boards d))
     \<and> (\<forall>b \<in> set (boards d). board_name b \<noteq> [] \<and> trim (board_name b) = board_name b)
     \<and> distinct (map status_name (statuses d))
     \<and> (\<forall>s \<in> set (statuses d). status_name s \<noteq> [] \<and> trim (status_name s) = status_name s)"

section \<open>A small store to evaluate on\<close>

text \<open>The store after creating the board "Sprint 1" at time 1 and the status "TODO" at time 2.\<close>

definition sample_db :: db where
  "sample_db =
     serve_all
       [(1, POST_boards (JStr (js ''Sprint 1''))),
        (2, POST_statuses (JStr (js ''TODO'')))]
       empty_db"

text \<open>
  The same store after a second board "Sprint 2", a second status "DONE" and three tasks:
  two on the first board, one on the second; two with status "TODO", one with "DONE".
\<close>

definition sample_tasks_db :: db where
  "sample_tasks_db =
     serve_all
       [(3, POST_boards (JStr (js ''Sprint 2''))),
        (4, POST_statuses (JStr (js ''DONE''))),
        (5, POST_tasks (JStr (js ''Write spec'')) (JStr (js ''first draft''))
              (JNum 1) (JNum 1) JUndefined),
        (6, POST_tasks (JStr (js ''Review'')) JNull (JNum 2) (JNum 1) JUndefined),
        (7, POST_tasks (JStr (js ''Ship'')) JUndefined (JNum 1) (JNum 2) JUndefined)]
       sample_db"

section \<open>Evaluation and library facts\<close>

lemmas js_eval = js_def isWhiteSpace_def isDigit_def digitsValue_def trim_def blank_def
  parseInt_def numberToString_def digits10.simps Let_def

lemmas store_eval = empty_db_def board_findUnique_id_def board_findUnique_name_def
  board_findFirst_name_not_id_def board_create_def board_update_name_def board_delete_def
  status_findUnique_id_def status_findUnique_name_def status_create_def status_update_name_def
  status_delete_def task_findUnique_id_def task_deleteMany_boardId_def
  task_updateMany_statusId_null_def task_delete_def task_create_def task_update_def
  apply_data_def no_data_def

lemmas controller_eval = createBoard_def updateBoard_def deleteBoard_def createStatus_def
  updateStatus_def deleteStatus_def resolveStatus_def thrown_response_def createTask_def
  update_title_def update_description_def update_board_def update_status_def updateTask_def
  deleteTask_def

lemma sample_db_eq:
  "sample_db =
     \<lparr>boards = [\<lparr>board_id = 1, board_name = js ''Sprint 1'', board_createdAt = 1\<rparr>],
      tasks = [],
      statuses = [\<lparr>status_id = 1, status_name = js ''TODO'', status_createdAt = 2\<rparr>],
      board_seq = 2, task_seq = 1, status_seq = 2\<rparr>"
  by (simp add: sample_db_def js_eval store_eval controller_eval)

lemma sample_tasks_db_eq:
  "sample_tasks_db =
     \<lparr>boards = [\<lparr>board_id = 1, board_name = js ''Sprint 1'', board_createdAt = 1\<rparr>,
                \<lparr>board_id = 2, board_name = js ''Sprint 2'', board_createdAt = 3\<rparr>],
      tasks = [\<lparr>task_id = 1, task_boardId = 1, task_title = js ''Write spec'',
                 task_description = Some (js ''first draft''), task_statusId = Some 1,
                 task_createdAt = 5\<rparr>,
               \<lparr>task_id = 2, task_boardId = 2, task_title = js ''Review'',
                 task_description = None, task_statusId = Some 1, task_createdAt = 6\<rparr>,
               \<lparr>task_id = 3, task_boardId = 1, task_title = js ''Ship'',
                 task_description = None, task_statusId = Some 2, task_createdAt = 7\<rparr>],
      statuses = [\<lparr>status_id = 1, status_name = js ''TODO'', status_createdAt = 2\<rparr>,
                  \<lparr>status_id = 2, status_name = js ''DONE'', status_createdAt = 4\<rparr>],
      board_seq = 3, task_seq = 4, status_seq = 3\<rparr>"
  by (simp add: sample_tasks_db_def sample_db_eq js_eval store_eval controller_eval)

lemma find_SomeD: "find P xs = Some x \<Longrightarrow> P x \<and> x \<in> set xs"
  by (induction xs) (auto split: if_splits)

lemma dropWhile_trimmed:
  "dropWhile P (rev (dropWhile P (rev (dropWhile P s)))) = rev (dropWhile P (rev (dropWhile P s)))"
proof -
  define t where "t = dropWhile P s"
  define u where "u = rev (dropWhile P (rev t))"
  have "dropWhile P u = u"
  proof (cases "u = []")
    case True
    then show ?thesis by simp
  next
    case False
    then have ne: "dropWhile P (rev t) \<noteq> []" by (simp add: u_def)
    then obtain x where x: "x \<in> set (rev t)" "\<not> P x"
      by (metis dropWhile_eq_Nil_conv)
    have "hd u = last (dropWhile P (rev t))"
      using ne by (simp add: u_def hd_rev)
    also have "\<dots> = last (rev t)" using x by (rule dropWhile_last)
    also have "\<dots> = hd t" using x(1) by (cases t) auto
    finally have "hd u = hd t" .
    moreover have "t \<noteq> []" using x(1) by auto
    then have "\<not> P (hd t)" unfolding t_def by (rule hd_dropWhile)
    ultimately show ?thesis using False by (simp add: dropWhile_eq_self_iff)
  qed
  then show ?thesis unfolding u_def t_def .
qed

lemma trim_trim: "trim (trim s) = trim s"
  by (simp add: trim_def dropWhile_trimmed)

lemma resolveStatus_absent:
  "statusId = JUndefined \<or> statusId = JNull \<Longrightarrow>
   resolveStatus statusId statusName d = Inl (Thrown ''Status not found'' 404)"
  by (auto simp: resolveStatus_def)

lemma resolveStatus_unparsed:
  "statusId \<noteq> JUndefined \<Longrightarrow> statusId \<noteq> JNull \<Longrightarrow> parseInt statusId = None \<Longrightarrow>
   resolveStatus statusId statusName d = Inl (Thrown ''statusId must be a valid integer'' 400)"
  by (simp add: resolveStatus_def)

lemma resolveStatus_missing:
  "statusId \<noteq> JUndefined \<Longrightarrow> statusId \<noteq> JNull \<Longrightarrow> parseInt statusId = Some n \<Longrightarrow>
   \<forall>s \<in> set (statuses d). status_id s \<noteq> n \<Longrightarrow>
   resolveStatus statusId statusName d = Inl (Thrown ''Status not found'' 404)"
  by (auto simp: resolveStatus_def status_findUnique_id_def find_None_iff split: option.splits
      dest: find_SomeD)

lemma resolveStatus_found:
  "statusId \<noteq> JUndefined \<Longrightarrow> statusId \<noteq> JNull \<Longrightarrow> parseInt statusId = Some n \<Longrightarrow>
   \<exists>s \<in> set (statuses d). status_id s = n \<Longrightarrow>
   \<exists>s \<in> set (statuses d). status_id s = n \<and> resolveStatus statusId statusName d = Inr s"
  by (auto simp: resolveStatus_def status_findUnique_id_def find_None_iff split: option.splits
      dest: find_SomeD)

section \<open>Status resolution\<close>

text \<open>
  Claim C4. Status resolution, shared by task create and update: when \<open>statusId\<close> is
  absent or null it fails with status 404 "Status not found", whatever \<open>statusName\<close> is
  (no lookup by name, no default status); when \<open>statusId\<close> is present and does not parse
  as an integer it fails with status 400; when it parses and no status has that id it
  fails with status 404; otherwise it returns a status of the store with that id.
\<close>

theorem resolveStatus_cases:
  "(statusId = JUndefined \<or> statusId = JNull \<longrightarrow>
      resolveStatus statusId statusName d = Inl (Thrown ''Status not found'' 404))
   \<and> (statusId \<noteq> JUndefined \<and> statusId \<noteq> JNull \<and> parseInt statusId = None \<longrightarrow>
      resolveStatus statusId statusName d = Inl (Thrown ''statusId must be a valid integer'' 400))
   \<and> (\<forall>n. statusId \<noteq> JUndefined \<and> statusId \<noteq> JNull \<and> parseInt statusId = Some n
          \<and> (\<forall>s \<in> set (statuses d). status_id s \<noteq> n) \<longrightarrow>
      resolveStatus statusId statusName d = Inl (Thrown ''Status not found'' 404))
   \<and> (\<forall>n. statusId \<noteq> JUndefined \<and> statusId \<noteq> JNull \<and> parseInt statusId = Some n
          \<and> (\<exists>s \<in> set (statuses d). status_id s = n) \<longrightarrow>
      (\<exists>s \<in> set (statuses d). status_id s = n \<and> resolveStatus statusId statusName d = Inr s))"
proof (intro conjI impI allI)
  assume "statusId = JUndefined \<or> statusId = JNull"
  then show "resolveStatus statusId statusName d = Inl (Thrown ''Status not found'' 404)"
    by (rule resolveStatus_absent)
next
  assume "statusId \<noteq> JUndefined \<and> statusId \<noteq> JNull \<and> parseInt statusId = None"
  then show "resolveStatus statusId statusName d
      = Inl (Thrown ''statusId must be a valid integer'' 400)"
    by (simp add: resolveStatus_unparsed)
next
  fix n
  assume "statusId \<noteq> JUndefined \<and> statusId \<noteq> JNull \<and> parseInt statusId = Some n
          \<and> (\<forall>s \<in> set (statuses d). status_id s \<noteq> n)"
  then show "resolveStatus statusId statusName d = Inl (Thrown ''Status not found'' 404)"
    by (simp add: resolveStatus_missing)
next
  fix n
  assume "statusId \<noteq> JUndefined \<and> statusId \<noteq> JNull \<and> parseInt statusId = Some n
          \<and> (\<exists>s \<in> set (statuses d). status_id s = n)"
  then show "\<exists>s \<in> set (statuses d). status_id s = n \<and> resolveStatus statusId statusName d = Inr s"
    using resolveStatus_found [of statusId n d statusName] by simp
qed

lemma parseInt_examples:
  "parseInt (JStr (js ''abc'')) = None"
  "parseInt (JNum 1) = Some 1"
  "parseInt (JNum 7) = Some 7"
  "parseInt (JStr (js ''-5'')) = Some (- 5)"
  "parseInt (JNum 0) = Some 0"
  "parseInt (JStr (js ''1'')) = Some 1"
  by (simp_all add: js_eval)

theorem resolveStatus_cases_witness:
  "resolveStatus JUndefined (JStr (js ''TODO'')) sample_db = Inl (Thrown ''Status not found'' 404)
   \<and> resolveStatus JNull (JStr (js ''TODO'')) sample_db = Inl (Thrown ''Status not found'' 404)
   \<and> resolveStatus (JStr (js ''abc'')) JUndefined sample_db
       = Inl (Thrown ''statusId must be a valid integer'' 400)
   \<and> resolveStatus (JNum 7) JUndefined sample_db = Inl (Thrown ''Status not found'' 404)
   \<and> resolveStatus (JNum 1) JUndefined sample_db
       = Inr \<lparr>status_id = 1, status_name = js ''TODO'', status_createdAt = 2\<rparr>"
proof -
  have a: "parseInt (JStr (js ''abc'')) = None" "parseInt (JNum 7) = Some 7"
    "parseInt (JNum 1) = Some 1"
    by (simp_all add: parseInt_examples)
  have st: "statuses sample_db = [\<lparr>status_id = 1, status_name = js ''TODO'', status_createdAt = 2\<rparr>]"
    by (simp add: sample_db_eq)
  show ?thesis
    using resolveStatus_cases [of JUndefined "JStr (js ''TODO'')" sample_db]
      resolveStatus_cases [of JNull "JStr (js ''TODO'')" sample_db]
      resolveStatus_cases [of "JStr (js ''abc'')" JUndefined sample_db]
      resolveStatus_cases [of "JNum 7" JUndefined sample_db]
      resolveStatus_cases [of "JNum 1" JUndefined sample_db]
    by (simp add: a st)
qed

section \<open>Task create\<close>

lemma blank_JStr: "blank (JStr s) \<longleftrightarrow> trim s = []"
  by (auto simp: blank_def trim_def)

text \<open>The checks of the controller itself, in its order.\<close>

lemma createTask_blank_title:
  "blank title \<Longrightarrow>
   createTask title description boardId statusId statusName now d
     = (Response 400 (Error ''Task title is required''), d)"
  by (simp add: createTask_def)

lemma createTask_unparsed_board:
  "\<not> blank title \<Longrightarrow> parseInt boardId = None \<Longrightarrow>
   createTask title description boardId statusId statusName now d
     = (Response 400 (Error ''Valid boardId is required''), d)"
  by (simp add: createTask_def)


lemma parseInt_more:
  "parseInt (JNum (- 5)) = Some (- 5)"
  "parseInt (JNum 2) = Some 2"
  by (simp_all add: js_eval)

text \<open>What a create that is answered 201 has stored.\<close>

lemma createTask_success:
  assumes "createTask title description boardId statusId statusName now d = (Response 201 body, d')"
  shows "\<exists>t. body = Task_json t \<and> tasks d' = tasks d @ [t]
           \<and> task_title t = trim (toString title)
           \<and> task_description t
               = (if truthy description then Some (trim (toString description)) else None)"
  using assms
  by (auto simp: createTask_def task_create_def thrown_response_def resolveStatus_def Let_def
      split: if_splits option.splits sum.splits)

subsection \<open>Through the mounted router\<close>
















text \<open>Evaluation with a conversion that converts no string.\<close>

lemmas joi_eval = joi_label_def joi_number_integer_positive_def joi_string_trim_def
  joi_string_trim_min1_def joi_string_allow_null_empty_def joi_allow_def joi_required_def
  joi_optional_def max_safe_integer_def idParam_def boardCreateSchema_def
  statusCreateSchema_def taskCreateSchema_def taskUpdateSchema_def validate_def



text \<open>Every state the mounted router produces is one a controller call produces.\<close>

lemma router_handle:
  "snd (router c now r d) = d \<or> (\<exists>r'. snd (router c now r d) = snd (handle now r' d))"
proof (cases r)
  case GET_boards
  then show ?thesis by (simp add: getBoards_def)
next
  case (POST_boards name)
  show ?thesis
  proof (cases "boardCreateSchema name")
    case (Inl m)
    with POST_boards show ?thesis by (simp add: validate_def)
  next
    case (Inr v)
    with POST_boards have "snd (router c now r d) = snd (handle now (POST_boards v) d)"
      by (simp add: validate_def)
    then show ?thesis by blast
  qed
next
  case (PUT_boards id' name)
  show ?thesis
  proof (cases "idParam c id'")
    case (Inl m)
    with PUT_boards show ?thesis by (simp add: validate_def)
  next
    case i: (Inr i)
    show ?thesis
    proof (cases "boardCreateSchema name")
      case (Inl m)
      with PUT_boards i show ?thesis by (simp add: validate_def)
    next
      case (Inr v)
      with PUT_boards i have "snd (router c now r d) = snd (handle now (PUT_boards i v) d)"
        by (simp add: validate_def)
      then show ?thesis by blast
    qed
  qed
next
  case (DELETE_boards id')
  show ?thesis
  proof (cases "idParam c id'")
    case (Inl m)
    with DELETE_boards show ?thesis by (simp add: validate_def)
  next
    case (Inr i)
    with DELETE_boards have "snd (router c now r d) = snd (handle now (DELETE_boards i) d)"
      by (simp add: validate_def)
    then show ?thesis by blast
  qed
next
  case (POST_tasks title description boardId statusId statusName)
  show ?thesis
  proof (cases "taskCreateSchema c title description boardId statusId statusName")
    case (Inl m)
    with POST_tasks show ?thesis by (simp add: validate_def)
  next
    case (Inr body)
    obtain t ds b si sn where "body = (t, ds, b, si, sn)" by (cases body) auto
    with POST_tasks Inr
    have "snd (router c now r d) = snd (handle now (POST_tasks t ds b si sn) d)"
      by (simp add: validate_def)
    then show ?thesis by blast
  qed
next
  case (PUT_tasks id' title description statusId statusName boardId)
  show ?thesis
  proof (cases "idParam c id'")
    case (Inl m)
    with PUT_tasks show ?thesis by (simp add: validate_def)
  next
    case i: (Inr i)
    show ?thesis
    proof (cases "taskUpdateSchema c title description boardId statusId statusName")
      case (Inl m)
      with PUT_tasks i show ?thesis by (simp add: validate_def)
    next
      case (Inr body)
      obtain t ds b si sn where "body = (t, ds, b, si, sn)" by (cases body) auto
      with PUT_tasks i Inr
      have "snd (router c now r d) = snd (handle now (PUT_tasks i t ds si sn b) d)"
        by (simp add: validate_def)
      then show ?thesis by blast
    qed
  qed
next
  case (DELETE_tasks id')
  show ?thesis
  proof (cases "idParam c id'")
    case (Inl m)
    with DELETE_tasks show ?thesis by (simp add: validate_def)
  next
    case (Inr i)
    with DELETE_tasks have "snd (router c now r d) = snd (handle now (DELETE_tasks i) d)"
      by (simp add: validate_def)
    then show ?thesis by blast
  qed
next
  case GET_statuses
  then show ?thesis by (simp add: getStatuses_def)
next
  case (POST_statuses name)
  show ?thesis
  proof (cases "statusCreateSchema name")
    case (Inl m)
    with POST_statuses show ?thesis by (simp add: validate_def)
  next
    case (Inr v)
    with POST_statuses have "snd (router c now r d) = snd (handle now (POST_statuses v) d)"
      by (simp add: validate_def)
    then show ?thesis by blast
  qed
next
  case (PUT_statuses id' name)
  show ?thesis
  proof (cases "idParam c id'")
    case (Inl m)
    with PUT_statuses show ?thesis by (simp add: validate_def)
  next
    case i: (Inr i)
    show ?thesis
    proof (cases "statusCreateSchema name")
      case (Inl m)
      with PUT_statuses i show ?thesis by (simp add: validate_def)
    next
      case (Inr v)
      with PUT_statuses i have "snd (router c now r d) = snd (handle now (PUT_statuses i v) d)"
        by (simp add: validate_def)
      then show ?thesis by blast
    qed
  qed
next
  case (DELETE_statuses id')
  show ?thesis
  proof (cases "idParam c id'")
    case (Inl m)
    with DELETE_statuses show ?thesis by (simp add: validate_def)
  next
    case (Inr i)
    with DELETE_statuses have "snd (router c now r d) = snd (handle now (DELETE_statuses i) d)"
      by (simp add: validate_def)
    then show ?thesis by blast
  qed
qed

lemma reachable_router: "reachable d \<Longrightarrow> reachable (snd (router c now r d))"
  using router_handle [of c now r d] by (auto intro: reachable.serve)

text \<open>
  Claim C9. The claim asks that the stored description be the input description trimmed
  whenever one is present. The code does not do that for the empty string, which the
  create schema allows: \<^verbatim>\<open>description ? String(description).trim() : null\<close> stores null
  for it, while the same controller stores the empty string for a description of two
  spaces, and \<open>updateTask\<close>, which tests \<^verbatim>\<open>description === null\<close>, stores the empty string
  for the empty string.
\<close>

theorem createTask_empty_description:
  "router (\<lambda>s. Unconverted) 3
     (POST_tasks (JStr (js ''Write spec'')) (JStr []) (JNum 1) (JNum 1) JUndefined) sample_db
     = (Response 201 (Task_json \<lparr>task_id = 1, task_boardId = 1, task_title = js ''Write spec'',
          task_description = None, task_statusId = Some 1, task_createdAt = 3\<rparr>),
        sample_db\<lparr>tasks := [\<lparr>task_id = 1, task_boardId = 1, task_title = js ''Write spec'',
          task_description = None, task_statusId = Some 1, task_createdAt = 3\<rparr>],
          task_seq := 2\<rparr>)
   \<and> (None :: jsstring option) \<noteq> Some (trim [])
   \<and> fst (router (\<lambda>s. Unconverted) 3
        (POST_tasks (JStr (js ''Write spec'')) (JStr (js ''  '')) (JNum 1) (JNum 1) JUndefined)
        sample_db)
     = Response 201 (Task_json \<lparr>task_id = 1, task_boardId = 1, task_title = js ''Write spec'',
          task_description = Some [], task_statusId = Some 1, task_createdAt = 3\<rparr>)
   \<and> fst (router (\<lambda>s. Unconverted) 8
        (PUT_tasks (JNum 1) JUndefined (JStr []) JUndefined JUndefined JUndefined)
        sample_tasks_db)
     = Response 200 (Task_json \<lparr>task_id = 1, task_boardId = 1, task_title = js ''Write spec'',
          task_description = Some [], task_statusId = Some 1, task_createdAt = 5\<rparr>)"
  by (simp add: sample_db_eq sample_tasks_db_eq joi_eval js_eval store_eval controller_eval)

section \<open>Creating boards and statuses\<close>

lemma find_None_name: "(\<forall>x \<in> set xs. \<not> P x) \<Longrightarrow> find P xs = None"
  by (simp add: find_None_iff)

lemma find_Some_ex: "\<exists>x \<in> set xs. P x \<Longrightarrow> \<exists>y. find P xs = Some y"
  by (cases "find P xs") (auto simp: find_None_iff)

lemma createBoard_blank:
  "blank name \<Longrightarrow> createBoard name now d = (Response 400 (Error ''Board name is required''), d)"
  by (simp add: createBoard_def)

lemma createBoard_conflict:
  "\<not> blank name \<Longrightarrow> \<exists>b \<in> set (boards d). board_name b = trim (toString name) \<Longrightarrow>
   createBoard name now d = (Response 400 (Error ''Board name already exists''), d)"
  using find_Some_ex [of "boards d" "\<lambda>b. board_name b = trim (toString name)"]
  by (auto simp: createBoard_def board_findUnique_name_def)

lemma createBoard_insert:
  "\<not> blank name \<Longrightarrow> \<forall>b \<in> set (boards d). board_name b \<noteq> trim (toString name) \<Longrightarrow>
   createBoard name now d =
     (Response 201 (Board_json \<lparr>board_id = board_seq d, board_name = trim (toString name),
                                 board_createdAt = now\<rparr>),
      d\<lparr>boards := boards d @ [\<lparr>board_id = board_seq d, board_name = trim (toString name),
                                 board_createdAt = now\<rparr>],
        board_seq := board_seq d + 1\<rparr>)"
  by (simp add: createBoard_def board_findUnique_name_def find_None_name board_create_def Let_def)

lemma createBoard_distinct:
  "distinct (map board_name (boards d)) \<Longrightarrow> distinct (map board_name (boards (snd (createBoard name now d))))"
  by (auto simp: createBoard_def board_findUnique_name_def board_create_def find_None_iff Let_def
      split: option.splits if_splits)

lemma createStatus_blank:
  "blank name \<Longrightarrow> createStatus name now d = (Response 400 (Error ''Status name is required''), d)"
  by (simp add: createStatus_def)

lemma createStatus_conflict:
  "\<not> blank name \<Longrightarrow> \<exists>s \<in> set (statuses d). status_name s = trim (toString name) \<Longrightarrow>
   createStatus name now d = (Response 400 (Error ''Status name already exists''), d)"
  using find_Some_ex [of "statuses d" "\<lambda>s. status_name s = trim (toString name)"]
  by (auto simp: createStatus_def status_findUnique_name_def)

lemma createStatus_insert:
  "\<not> blank name \<Longrightarrow> \<forall>s \<in> set (statuses d). status_name s \<noteq> trim (toString name) \<Longrightarrow>
   createStatus name now d =
     (Response 201 (Status_json \<lparr>status_id = status_seq d, status_name = trim (toString name),
                                   status_createdAt = now\<rparr>),
      d\<lparr>statuses := statuses d @ [\<lparr>status_id = status_seq d, status_name = trim (toString name),
                                     status_createdAt = now\<rparr>],
        status_seq := status_seq d + 1\<rparr>)"
  by (simp add: createStatus_def status_findUnique_name_def find_None_name status_create_def Let_def)

lemma createStatus_distinct:
  "distinct (map status_name (statuses d)) \<Longrightarrow>
   distinct (map status_name (statuses (snd (createStatus name now d))))"
  by (auto simp: createStatus_def status_findUnique_name_def status_create_def find_None_iff Let_def
      split: option.splits if_splits)

text \<open>
  Claim C5. For every name \<open>s\<close>, creating a status (and likewise a board) answers 400
  "name is required" when \<open>s\<close> is empty or white space only (as it does for a name that
  is absent or not a string), answers 400 "name already exists" when a row with the
  trimmed name exists, and otherwise inserts the row with the trimmed name and returns
  it. Hence a second create with the same trimmed name is
  answered "name already exists", exactly one row then has that name, and names that
  were distinct stay distinct.
\<close>

theorem create_name_cases:
  "(typeof v \<noteq> TString \<longrightarrow>
      createStatus v now d = (Response 400 (Error ''Status name is required''), d)
      \<and> createBoard v now d = (Response 400 (Error ''Board name is required''), d))
   \<and> (trim s = [] \<longrightarrow>
      createStatus (JStr s) now d = (Response 400 (Error ''Status name is required''), d)
      \<and> createBoard (JStr s) now d = (Response 400 (Error ''Board name is required''), d))
   \<and> (trim s \<noteq> [] \<and> (\<exists>x \<in> set (statuses d). status_name x = trim s) \<longrightarrow>
      createStatus (JStr s) now d = (Response 400 (Error ''Status name already exists''), d))
   \<and> (trim s \<noteq> [] \<and> (\<exists>x \<in> set (boards d). board_name x = trim s) \<longrightarrow>
      createBoard (JStr s) now d = (Response 400 (Error ''Board name already exists''), d))
   \<and> (trim s \<noteq> [] \<and> (\<forall>x \<in> set (statuses d). status_name x \<noteq> trim s) \<longrightarrow>
      createStatus (JStr s) now d =
        (Response 201 (Status_json \<lparr>status_id = status_seq d, status_name = trim s,
                                      status_createdAt = now\<rparr>),
         d\<lparr>statuses := statuses d @ [\<lparr>status_id = status_seq d, status_name = trim s,
                                        status_createdAt = now\<rparr>],
           status_seq := status_seq d + 1\<rparr>)
      \<and> length (filter (\<lambda>x. status_name x = trim s)
                  (statuses (snd (createStatus (JStr s) now d)))) = 1)
   \<and> (trim s \<noteq> [] \<and> (\<forall>x \<in> set (boards d). board_name x \<noteq> trim s) \<longrightarrow>
      createBoard (JStr s) now d =
        (Response 201 (Board_json \<lparr>board_id = board_seq d, board_name = trim s,
                                     board_createdAt = now\<rparr>),
         d\<lparr>boards := boards d @ [\<lparr>board_id = board_seq d, board_name = trim s,
                                    board_createdAt = now\<rparr>],
           board_seq := board_seq d + 1\<rparr>)
      \<and> length (filter (\<lambda>x. board_name x = trim s)
                  (boards (snd (createBoard (JStr s) now d)))) = 1)
   \<and> (trim s \<noteq> [] \<and> (\<forall>x \<in> set (statuses d). status_name x \<noteq> trim s) \<and> trim s' = trim s \<longrightarrow>
      createStatus (JStr s') now' (snd (createStatus (JStr s) now d))
        = (Response 400 (Error ''Status name already exists''),
           snd (createStatus (JStr s) now d)))
   \<and> (trim s \<noteq> [] \<and> (\<forall>x \<in> set (boards d). board_name x \<noteq> trim s) \<and> trim s' = trim s \<longrightarrow>
      createBoard (JStr s') now' (snd (createBoard (JStr s) now d))
        = (Response 400 (Error ''Board name already exists''),
           snd (createBoard (JStr s) now d)))
   \<and> (distinct (map status_name (statuses d)) \<longrightarrow>
        distinct (map status_name (statuses (snd (createStatus (JStr s) now d)))))
   \<and> (distinct (map board_name (boards d)) \<longrightarrow>
        distinct (map board_name (boards (snd (createBoard (JStr s) now d)))))"
proof -
  have sins: "createStatus (JStr s) now d =
        (Response 201 (Status_json \<lparr>status_id = status_seq d, status_name = trim s,
                                      status_createdAt = now\<rparr>),
         d\<lparr>statuses := statuses d @ [\<lparr>status_id = status_seq d, status_name = trim s,
                                        status_createdAt = now\<rparr>],
           status_seq := status_seq d + 1\<rparr>)"
    if "trim s \<noteq> []" "\<forall>x \<in> set (statuses d). status_name x \<noteq> trim s"
    using that createStatus_insert [of "JStr s" d now] by (simp add: blank_JStr)
  have bins: "createBoard (JStr s) now d =
        (Response 201 (Board_json \<lparr>board_id = board_seq d, board_name = trim s,
                                     board_createdAt = now\<rparr>),
         d\<lparr>boards := boards d @ [\<lparr>board_id = board_seq d, board_name = trim s,
                                    board_createdAt = now\<rparr>],
           board_seq := board_seq d + 1\<rparr>)"
    if "trim s \<noteq> []" "\<forall>x \<in> set (boards d). board_name x \<noteq> trim s"
    using that createBoard_insert [of "JStr s" d now] by (simp add: blank_JStr)
  show ?thesis
  proof (intro conjI impI)
    assume "typeof v \<noteq> TString"
    then show "createStatus v now d = (Response 400 (Error ''Status name is required''), d)"
      by (simp add: createStatus_blank blank_def)
  next
    assume "typeof v \<noteq> TString"
    then show "createBoard v now d = (Response 400 (Error ''Board name is required''), d)"
      by (simp add: createBoard_blank blank_def)
  next
    assume "trim s = []"
    then show "createStatus (JStr s) now d = (Response 400 (Error ''Status name is required''), d)"
      by (simp add: createStatus_blank blank_JStr)
  next
    assume "trim s = []"
    then show "createBoard (JStr s) now d = (Response 400 (Error ''Board name is required''), d)"
      by (simp add: createBoard_blank blank_JStr)
  next
    assume "trim s \<noteq> [] \<and> (\<exists>x \<in> set (statuses d). status_name x = trim s)"
    then show "createStatus (JStr s) now d
        = (Response 400 (Error ''Status name already exists''), d)"
      by (simp add: createStatus_conflict blank_JStr)
  next
    assume "trim s \<noteq> [] \<and> (\<exists>x \<in> set (boards d). board_name x = trim s)"
    then show "createBoard (JStr s) now d
        = (Response 400 (Error ''Board name already exists''), d)"
      by (simp add: createBoard_conflict blank_JStr)
  next
    assume a: "trim s \<noteq> [] \<and> (\<forall>x \<in> set (statuses d). status_name x \<noteq> trim s)"
    then show "createStatus (JStr s) now d =
        (Response 201 (Status_json \<lparr>status_id = status_seq d, status_name = trim s,
                                      status_createdAt = now\<rparr>),
         d\<lparr>statuses := statuses d @ [\<lparr>status_id = status_seq d, status_name = trim s,
                                        status_createdAt = now\<rparr>],
           status_seq := status_seq d + 1\<rparr>)"
      by (simp add: sins)
    show "length (filter (\<lambda>x. status_name x = trim s)
                  (statuses (snd (createStatus (JStr s) now d)))) = 1"
      using a by (simp add: sins filter_empty_conv[THEN iffD2])
  next
    assume a: "trim s \<noteq> [] \<and> (\<forall>x \<in> set (boards d). board_name x \<noteq> trim s)"
    then show "createBoard (JStr s) now d =
        (Response 201 (Board_json \<lparr>board_id = board_seq d, board_name = trim s,
                                     board_createdAt = now\<rparr>),
         d\<lparr>boards := boards d @ [\<lparr>board_id = board_seq d, board_name = trim s,
                                    board_createdAt = now\<rparr>],
           board_seq := board_seq d + 1\<rparr>)"
      by (simp add: bins)
    show "length (filter (\<lambda>x. board_name x = trim s)
                  (boards (snd (createBoard (JStr s) now d)))) = 1"
      using a by (simp add: bins filter_empty_conv[THEN iffD2])
  next
    assume a: "trim s \<noteq> [] \<and> (\<forall>x \<in> set (statuses d). status_name x \<noteq> trim s) \<and> trim s' = trim s"
    then show "createStatus (JStr s') now' (snd (createStatus (JStr s) now d))
        = (Response 400 (Error ''Status name already exists''),
           snd (createStatus (JStr s) now d))"
      by (intro createStatus_conflict) (simp_all add: blank_JStr sins)
  next
    assume a: "trim s \<noteq> [] \<and> (\<forall>x \<in> set (boards d). board_name x \<noteq> trim s) \<and> trim s' = trim s"
    then show "createBoard (JStr s') now' (snd (createBoard (JStr s) now d))
        = (Response 400 (Error ''Board name already exists''),
           snd (createBoard (JStr s) now d))"
      by (intro createBoard_conflict) (simp_all add: blank_JStr bins)
  next
    assume "distinct (map status_name (statuses d))"
    then show "distinct (map status_name (statuses (snd (createStatus (JStr s) now d))))"
      by (rule createStatus_distinct)
  next
    assume "distinct (map board_name (boards d))"
    then show "distinct (map board_name (boards (snd (createBoard (JStr s) now d))))"
      by (rule createBoard_distinct)
  qed
qed

lemma trim_examples:
  "trim (js ''   '') = []"
  "trim (js '' TODO '') = js ''TODO''"
  "trim (js ''TODO'') = js ''TODO''"
  "trim (js ''Sprint 1'') = js ''Sprint 1''"
  "trim (js ''DONE'') = js ''DONE''"
  "trim (js '' DONE'') = js ''DONE''"
  by (simp_all add: js_eval)

lemma js_eq_iff: "js a = js b \<longleftrightarrow> a = b"
  by (auto simp: js_def list_eq_iff_nth_eq)

lemma js_Nil_iff: "js a = [] \<longleftrightarrow> a = []"
  by (simp add: js_def)

lemmas name_examples = js_eq_iff js_Nil_iff

theorem create_name_cases_witness:
  "createStatus JUndefined 5 sample_db
     = (Response 400 (Error ''Status name is required''), sample_db)
   \<and> createBoard (JNum 7) 5 sample_db
     = (Response 400 (Error ''Board name is required''), sample_db)
   \<and> createStatus (JStr (js ''   '')) 5 sample_db
     = (Response 400 (Error ''Status name is required''), sample_db)
   \<and> createBoard (JStr (js ''   '')) 5 sample_db
     = (Response 400 (Error ''Board name is required''), sample_db)
   \<and> createStatus (JStr (js '' TODO '')) 5 sample_db
     = (Response 400 (Error ''Status name already exists''), sample_db)
   \<and> createBoard (JStr (js ''Sprint 1'')) 5 sample_db
     = (Response 400 (Error ''Board name already exists''), sample_db)
   \<and> fst (createStatus (JStr (js ''DONE'')) 5 sample_db)
     = Response 201 (Status_json \<lparr>status_id = 2, status_name = js ''DONE'', status_createdAt = 5\<rparr>)
   \<and> fst (createBoard (JStr (js ''DONE'')) 5 sample_db)
     = Response 201 (Board_json \<lparr>board_id = 2, board_name = js ''DONE'', board_createdAt = 5\<rparr>)
   \<and> createStatus (JStr (js '' DONE'')) 6 (snd (createStatus (JStr (js ''DONE'')) 5 sample_db))
     = (Response 400 (Error ''Status name already exists''),
        snd (createStatus (JStr (js ''DONE'')) 5 sample_db))
   \<and> createBoard (JStr (js '' DONE'')) 6 (snd (createBoard (JStr (js ''DONE'')) 5 sample_db))
     = (Response 400 (Error ''Board name already exists''),
        snd (createBoard (JStr (js ''DONE'')) 5 sample_db))
   \<and> distinct (map status_name (statuses (snd (createStatus (JStr (js ''DONE'')) 5 sample_db))))
   \<and> distinct (map board_name (boards (snd (createBoard (JStr (js ''DONE'')) 5 sample_db))))"
proof -
  have d: "statuses sample_db = [\<lparr>status_id = 1, status_name = js ''TODO'', status_createdAt = 2\<rparr>]"
    "boards sample_db = [\<lparr>board_id = 1, board_name = js ''Sprint 1'', board_createdAt = 1\<rparr>]"
    "status_seq sample_db = 2" "board_seq sample_db = 2"
    by (simp_all add: sample_db_eq)
  show ?thesis
    using create_name_cases [where v = JUndefined and now = 5 and d = sample_db]
      create_name_cases [where v = "JNum 7" and now = 5 and d = sample_db]
      create_name_cases [where s = "js ''   ''" and now = 5 and d = sample_db]
      create_name_cases [where s = "js '' TODO ''" and now = 5 and d = sample_db]
      create_name_cases [where s = "js ''Sprint 1''" and now = 5 and d = sample_db]
      create_name_cases [where s = "js ''DONE''" and now = 5 and d = sample_db
        and s' = "js '' DONE''" and now' = 6]
    by (auto simp: d trim_examples name_examples)
qed

section \<open>Deleting a status, deleting a board\<close>

lemma deleteStatus_found:
  assumes "parseInt id' = Some s" "st \<in> set (statuses d)" "status_id st = s"
  shows "deleteStatus id' d =
     (Response 200 (Message ''Status deleted and tasks unlinked''),
      d\<lparr>tasks := map (\<lambda>t. if task_statusId t = Some s then t\<lparr>task_statusId := None\<rparr> else t) (tasks d),
        statuses := filter (\<lambda>x. status_id x \<noteq> s) (statuses d)\<rparr>)"
proof -
  from assms(2,3) obtain y where "find (\<lambda>z. status_id z = s) (statuses d) = Some y"
    using find_Some_ex [of "statuses d" "\<lambda>z. status_id z = s"] by auto
  then show ?thesis
    by (simp add: deleteStatus_def assms(1) status_findUnique_id_def status_delete_def
        task_updateMany_statusId_null_def)
qed

text \<open>
  Claim C2. For every existing status with id \<open>s\<close>, \<open>deleteStatus\<close> succeeds with a
  confirmation message (not the deleted row); afterwards every task is still there, in
  place, with its id, title, description, board and creation time unchanged, the tasks
  that referenced \<open>s\<close> have no status, the others keep theirs, and no status row with
  id \<open>s\<close> remains.
\<close>

theorem deleteStatus_unlinks:
  assumes "parseInt id' = Some s" "st \<in> set (statuses d)" "status_id st = s"
  shows "deleteStatus id' d =
     (Response 200 (Message ''Status deleted and tasks unlinked''),
      d\<lparr>tasks := map (\<lambda>t. if task_statusId t = Some s then t\<lparr>task_statusId := None\<rparr> else t) (tasks d),
        statuses := filter (\<lambda>x. status_id x \<noteq> s) (statuses d)\<rparr>)
   \<and> (\<forall>x \<in> set (statuses (snd (deleteStatus id' d))). status_id x \<noteq> s)
   \<and> length (tasks (snd (deleteStatus id' d))) = length (tasks d)
   \<and> (\<forall>i < length (tasks d).
         task_id (tasks (snd (deleteStatus id' d)) ! i) = task_id (tasks d ! i)
         \<and> task_title (tasks (snd (deleteStatus id' d)) ! i) = task_title (tasks d ! i)
         \<and> task_description (tasks (snd (deleteStatus id' d)) ! i) = task_description (tasks d ! i)
         \<and> task_boardId (tasks (snd (deleteStatus id' d)) ! i) = task_boardId (tasks d ! i)
         \<and> task_createdAt (tasks (snd (deleteStatus id' d)) ! i) = task_createdAt (tasks d ! i)
         \<and> task_statusId (tasks (snd (deleteStatus id' d)) ! i)
             = (if task_statusId (tasks d ! i) = Some s then None else task_statusId (tasks d ! i)))
   \<and> boards (snd (deleteStatus id' d)) = boards d"
  by (simp add: deleteStatus_found [OF assms])

lemma deleteBoard_found:
  assumes "parseInt id' = Some b" "bd \<in> set (boards d)" "board_id bd = b"
  shows "deleteBoard id' d =
     (Response 200 (Message ''Board and its tasks deleted successfully''),
      d\<lparr>tasks := filter (\<lambda>t. task_boardId t \<noteq> b) (tasks d),
        boards := filter (\<lambda>x. board_id x \<noteq> b) (boards d)\<rparr>)"
proof -
  from assms(2,3) obtain y where "find (\<lambda>z. board_id z = b) (boards d) = Some y"
    using find_Some_ex [of "boards d" "\<lambda>z. board_id z = b"] by auto
  then show ?thesis
    by (simp add: deleteBoard_def assms(1) board_findUnique_id_def board_delete_def
        task_deleteMany_boardId_def)
qed

text \<open>
  Claim C3. For every existing board with id \<open>b\<close>, \<open>deleteBoard\<close> succeeds; afterwards no
  task has board \<open>b\<close>, no board row with id \<open>b\<close> remains, and the tasks of the other
  boards, the other boards and all statuses are unchanged.
\<close>

theorem deleteBoard_cascades:
  assumes "parseInt id' = Some b" "bd \<in> set (boards d)" "board_id bd = b"
  shows "deleteBoard id' d =
     (Response 200 (Message ''Board and its tasks deleted successfully''),
      d\<lparr>tasks := filter (\<lambda>t. task_boardId t \<noteq> b) (tasks d),
        boards := filter (\<lambda>x. board_id x \<noteq> b) (boards d)\<rparr>)
   \<and> filter (\<lambda>t. task_boardId t = b) (tasks (snd (deleteBoard id' d))) = []
   \<and> (\<forall>x \<in> set (boards (snd (deleteBoard id' d))). board_id x \<noteq> b)
   \<and> filter (\<lambda>t. task_boardId t \<noteq> b) (tasks (snd (deleteBoard id' d)))
       = filter (\<lambda>t. task_boardId t \<noteq> b) (tasks d)
   \<and> filter (\<lambda>x. board_id x \<noteq> b) (boards (snd (deleteBoard id' d)))
       = filter (\<lambda>x. board_id x \<noteq> b) (boards d)
   \<and> statuses (snd (deleteBoard id' d)) = statuses d"
  by (simp add: deleteBoard_found [OF assms] filter_empty_conv)

theorem deleteStatus_unlinks_witness:
  "deleteStatus (JStr (js ''1'')) sample_tasks_db =
     (Response 200 (Message ''Status deleted and tasks unlinked''),
      sample_tasks_db
        \<lparr>tasks := [\<lparr>task_id = 1, task_boardId = 1, task_title = js ''Write spec'',
                     task_description = Some (js ''first draft''), task_statusId = None,
                     task_createdAt = 5\<rparr>,
                   \<lparr>task_id = 2, task_boardId = 2, task_title = js ''Review'',
                     task_description = None, task_statusId = None, task_createdAt = 6\<rparr>,
                   \<lparr>task_id = 3, task_boardId = 1, task_title = js ''Ship'',
                     task_description = None, task_statusId = Some 2, task_createdAt = 7\<rparr>],
          statuses := [\<lparr>status_id = 2, status_name = js ''DONE'', status_createdAt = 4\<rparr>]\<rparr>)"
proof -
  have a: "\<lparr>status_id = 1, status_name = js ''TODO'', status_createdAt = 2\<rparr>
          \<in> set (statuses sample_tasks_db)"
    by (simp add: sample_tasks_db_eq)
  have b: "status_id \<lparr>status_id = 1, status_name = js ''TODO'', status_createdAt = 2\<rparr> = 1"
    by simp
  note e = deleteStatus_unlinks [OF parseInt_examples(6) a b, THEN conjunct1]
  show ?thesis by (subst e) (simp add: sample_tasks_db_eq)
qed

theorem deleteBoard_cascades_witness:
  "deleteBoard (JNum 1) sample_tasks_db =
     (Response 200 (Message ''Board and its tasks deleted successfully''),
      sample_tasks_db
        \<lparr>tasks := [\<lparr>task_id = 2, task_boardId = 2, task_title = js ''Review'',
                     task_description = None, task_statusId = Some 1, task_createdAt = 6\<rparr>],
          boards := [\<lparr>board_id = 2, board_name = js ''Sprint 2'', board_createdAt = 3\<rparr>]\<rparr>)"
proof -
  have a: "\<lparr>board_id = 1, board_name = js ''Sprint 1'', board_createdAt = 1\<rparr>
          \<in> set (boards sample_tasks_db)"
    by (simp add: sample_tasks_db_eq)
  have b: "board_id \<lparr>board_id = 1, board_name = js ''Sprint 1'', board_createdAt = 1\<rparr> = 1"
    by simp
  note e = deleteBoard_cascades [OF parseInt_examples(2) a b, THEN conjunct1]
  show ?thesis by (subst e) (simp add: sample_tasks_db_eq)
qed

section \<open>Task update\<close>

lemma resolveStatus_thrown:
  "resolveStatus statusId statusName d = Inl e \<Longrightarrow> thrown_status e = 400 \<or> thrown_status e = 404"
  by (auto simp: resolveStatus_def split: if_splits option.splits)

lemma resolveStatus_Inr:
  "resolveStatus statusId statusName d = Inr s \<Longrightarrow>
   statusId \<noteq> JUndefined \<and> statusId \<noteq> JNull \<and> parseInt statusId = Some (status_id s)
   \<and> s \<in> set (statuses d)"
  by (auto simp: resolveStatus_def status_findUnique_id_def split: if_splits option.splits
      dest: find_SomeD)

lemma update_title_Inl:
  "update_title title dt = Inl r \<Longrightarrow>
   r = Response 400 (Error ''Task title, if provided, must be a non-empty string'')"
  by (auto simp: update_title_def split: if_splits)

lemma update_title_Inr:
  "update_title title dt = Inr dt' \<Longrightarrow>
   data_title dt' = (if title = JUndefined then data_title dt else Some (trim (toString title)))
   \<and> data_description dt' = data_description dt \<and> data_board dt' = data_board dt
   \<and> data_status dt' = data_status dt"
  by (auto simp: update_title_def split: if_splits)

lemma update_description_fields:
  "data_title (update_description description dt) = data_title dt
   \<and> data_description (update_description description dt) =
       (if description = JUndefined then data_description dt
        else Some (if description = JNull then None else Some (trim (toString description))))
   \<and> data_board (update_description description dt) = data_board dt
   \<and> data_status (update_description description dt) = data_status dt"
  by (simp add: update_description_def)

lemma update_board_Inl:
  "update_board boardId d dt = Inl r \<Longrightarrow>
   r = Response 400 (Error ''boardId must be a valid integer'')
   \<or> r = Response 404 (Error ''Board not found'')"
  by (auto simp: update_board_def split: if_splits option.splits)

lemma update_board_Inr:
  "update_board boardId d dt = Inr dt' \<Longrightarrow>
   data_title dt' = data_title dt \<and> data_description dt' = data_description dt
   \<and> data_status dt' = data_status dt
   \<and> (boardId = JUndefined \<and> data_board dt' = data_board dt
       \<or> boardId \<noteq> JUndefined
          \<and> (\<exists>n. parseInt boardId = Some n \<and> (\<exists>b \<in> set (boards d). board_id b = n)
                 \<and> data_board dt' = Some (Connect n)))"
  by (auto simp: update_board_def board_findUnique_id_def split: if_splits option.splits
      dest: find_SomeD)

lemma update_status_Inl:
  "update_status statusId statusName d dt = Inl r \<Longrightarrow> \<exists>c m. r = Response c (Error m) \<and> c \<noteq> 200"
  by (auto simp: update_status_def thrown_response_def split: if_splits sum.splits
      dest!: resolveStatus_thrown)

lemma update_status_Inr:
  "update_status statusId statusName d dt = Inr dt' \<Longrightarrow>
   data_title dt' = data_title dt \<and> data_description dt' = data_description dt
   \<and> data_board dt' = data_board dt
   \<and> (statusId = JUndefined \<and> statusName = JUndefined \<and> data_status dt' = data_status dt
       \<or> \<not> (statusId = JUndefined \<and> statusName = JUndefined)
          \<and> (statusId = JNull \<or> statusName = JNull) \<and> data_status dt' = Some Disconnect
       \<or> \<not> (statusId = JUndefined \<and> statusName = JUndefined)
          \<and> statusId \<noteq> JNull \<and> statusName \<noteq> JNull
          \<and> (\<exists>n. parseInt statusId = Some n \<and> (\<exists>s \<in> set (statuses d). status_id s = n)
                 \<and> data_status dt' = Some (Connect n)))"
  by (auto simp: update_status_def split: if_splits sum.splits dest!: resolveStatus_Inr)

lemma updateTask_rejected:
  "updateTask id' title description statusId statusName boardId d = (Response c body, d') \<Longrightarrow>
   c \<noteq> 200 \<Longrightarrow> d' = d"
  by (auto simp: updateTask_def split: option.splits sum.splits)

lemma find_Some_nth:
  "find P xs = Some x \<Longrightarrow> \<exists>j < length xs. xs ! j = x \<and> P x"
  by (auto dest!: find_SomeD simp: in_set_conv_nth)

lemma updateTask_success:
  assumes "updateTask id' title description statusId statusName boardId d = (Response 200 body, d')"
  shows "\<exists>taskId existing dt.
           parseInt id' = Some taskId \<and> task_findUnique_id taskId d = Some existing
           \<and> body = Task_json (apply_data dt existing) \<and> d' = task_update taskId dt d
           \<and> data_title dt = (if title = JUndefined then None else Some (trim (toString title)))
           \<and> data_description dt =
               (if description = JUndefined then None
                else Some (if description = JNull then None else Some (trim (toString description))))
           \<and> (boardId = JUndefined \<and> data_board dt = None
                \<or> boardId \<noteq> JUndefined \<and> (\<exists>n. parseInt boardId = Some n
                     \<and> (\<exists>b \<in> set (boards d). board_id b = n) \<and> data_board dt = Some (Connect n)))
           \<and> (statusId = JUndefined \<and> statusName = JUndefined \<and> data_status dt = None
                \<or> \<not> (statusId = JUndefined \<and> statusName = JUndefined)
                    \<and> (statusId = JNull \<or> statusName = JNull) \<and> data_status dt = Some Disconnect
                \<or> \<not> (statusId = JUndefined \<and> statusName = JUndefined)
                    \<and> statusId \<noteq> JNull \<and> statusName \<noteq> JNull
                    \<and> (\<exists>n. parseInt statusId = Some n \<and> (\<exists>s \<in> set (statuses d). status_id s = n)
                          \<and> data_status dt = Some (Connect n)))"
proof -
  from assms obtain taskId where p: "parseInt id' = Some taskId"
    by (auto simp: updateTask_def split: option.splits)
  from assms p obtain existing where f: "task_findUnique_id taskId d = Some existing"
    by (auto simp: updateTask_def split: option.splits)
  from assms p f obtain data1 where t: "update_title title no_data = Inr data1"
    by (auto simp: updateTask_def split: sum.splits dest: update_title_Inl)
  from assms p f t obtain data3 where
    b: "update_board boardId d (update_description description data1) = Inr data3"
    by (auto simp: updateTask_def split: sum.splits dest: update_board_Inl)
  from assms p f t b obtain dt where
    s: "update_status statusId statusName d data3 = Inr dt"
    by (auto simp: updateTask_def split: sum.splits dest: update_status_Inl)
  from assms p f t b s have r: "body = Task_json (apply_data dt existing)"
    "d' = task_update taskId dt d"
    by (simp_all add: updateTask_def)
  note t' = update_title_Inr [OF t] and b' = update_board_Inr [OF b]
    and s' = update_status_Inr [OF s]
    and m' = update_description_fields [of description data1]
  have n: "data_title no_data = None" "data_description no_data = None"
    "data_board no_data = None" "data_status no_data = None"
    by (simp_all add: no_data_def)
  have 1: "data_title dt = (if title = JUndefined then None else Some (trim (toString title)))"
    using t' b' s' m' n by simp
  have 2: "data_description dt =
               (if description = JUndefined then None
                else Some (if description = JNull then None else Some (trim (toString description))))"
    using t' b' s' m' n by simp
  have 3: "boardId = JUndefined \<and> data_board dt = None
                \<or> boardId \<noteq> JUndefined \<and> (\<exists>n. parseInt boardId = Some n
                     \<and> (\<exists>b \<in> set (boards d). board_id b = n) \<and> data_board dt = Some (Connect n))"
    using t' b' s' m' n by simp
  have 4: "statusId = JUndefined \<and> statusName = JUndefined \<and> data_status dt = None
                \<or> \<not> (statusId = JUndefined \<and> statusName = JUndefined)
                    \<and> (statusId = JNull \<or> statusName = JNull) \<and> data_status dt = Some Disconnect
                \<or> \<not> (statusId = JUndefined \<and> statusName = JUndefined)
                    \<and> statusId \<noteq> JNull \<and> statusName \<noteq> JNull
                    \<and> (\<exists>n. parseInt statusId = Some n \<and> (\<exists>s \<in> set (statuses d). status_id s = n)
                          \<and> data_status dt = Some (Connect n))"
    using t' b' s' m' n by simp
  from p f r 1 2 3 4 show ?thesis by blast
qed

lemma updateTask_blank_title:
  assumes "t \<in> set (tasks d)" "parseInt id' = Some (task_id t)" "trim s = []"
  shows "updateTask id' (JStr s) description statusId statusName boardId d
          = (Response 400 (Error ''Task title, if provided, must be a non-empty string''), d)"
proof -
  from assms(1) obtain y where "find (\<lambda>z. task_id z = task_id t) (tasks d) = Some y"
    using find_Some_ex [of "tasks d" "\<lambda>z. task_id z = task_id t"] by auto
  then show ?thesis
    using assms(2,3)
    by (simp add: updateTask_def task_findUnique_id_def update_title_def blank_JStr)
qed

lemma apply_data_fields:
  "task_id (apply_data dt t) = task_id t"
  "task_createdAt (apply_data dt t) = task_createdAt t"
  "task_title (apply_data dt t) = (case data_title dt of None \<Rightarrow> task_title t | Some x \<Rightarrow> x)"
  "task_description (apply_data dt t)
     = (case data_description dt of None \<Rightarrow> task_description t | Some x \<Rightarrow> x)"
  "task_boardId (apply_data dt t)
     = (case data_board dt of Some (Connect i) \<Rightarrow> i | _ \<Rightarrow> task_boardId t)"
  "task_statusId (apply_data dt t)
     = (case data_status dt of None \<Rightarrow> task_statusId t
        | Some (Connect i) \<Rightarrow> Some i | Some Disconnect \<Rightarrow> None)"
  by (simp_all add: apply_data_def)

text \<open>
  Claim C6. Task update is a partial update. A request that is not answered 200 leaves
  the store as it was; in particular, for every existing task, an empty or white-space
  title is answered 400 and nothing changes. A request answered 200 returns the updated
  row and changes only the row with the given id, and of that row only the fields whose
  key is present: an absent title, description or \<open>boardId\<close> keeps the old value, and
  the status is kept when both \<open>statusId\<close> and \<open>statusName\<close> are absent.
\<close>

theorem updateTask_partial:
  "(updateTask id' title description statusId statusName boardId d = (Response c body, d')
      \<and> c \<noteq> 200 \<longrightarrow> d' = d)
   \<and> (t \<in> set (tasks d) \<and> parseInt id' = Some (task_id t) \<and> trim s = [] \<longrightarrow>
        updateTask id' (JStr s) description statusId statusName boardId d
          = (Response 400 (Error ''Task title, if provided, must be a non-empty string''), d))
   \<and> (updateTask id' title description statusId statusName boardId d = (Response 200 body, d') \<longrightarrow>
        boards d' = boards d \<and> statuses d' = statuses d \<and> length (tasks d') = length (tasks d)
        \<and> (\<exists>taskId. parseInt id' = Some taskId
            \<and> (\<exists>j < length (tasks d). task_id (tasks d ! j) = taskId \<and> body = Task_json (tasks d' ! j))
            \<and> (\<forall>i < length (tasks d).
                 (task_id (tasks d ! i) \<noteq> taskId \<longrightarrow> tasks d' ! i = tasks d ! i)
                 \<and> (task_id (tasks d ! i) = taskId \<longrightarrow>
                      task_id (tasks d' ! i) = taskId
                      \<and> task_createdAt (tasks d' ! i) = task_createdAt (tasks d ! i)
                      \<and> task_title (tasks d' ! i)
                          = (if title = JUndefined then task_title (tasks d ! i)
                             else trim (toString title))
                      \<and> task_description (tasks d' ! i)
                          = (if description = JUndefined then task_description (tasks d ! i)
                             else if description = JNull then None
                             else Some (trim (toString description)))
                      \<and> (if boardId = JUndefined
                          then task_boardId (tasks d' ! i) = task_boardId (tasks d ! i)
                          else parseInt boardId = Some (task_boardId (tasks d' ! i)))
                      \<and> (if statusId = JUndefined \<and> statusName = JUndefined
                          then task_statusId (tasks d' ! i) = task_statusId (tasks d ! i)
                          else if statusId = JNull \<or> statusName = JNull
                          then task_statusId (tasks d' ! i) = None
                          else \<exists>n. parseInt statusId = Some n
                                 \<and> task_statusId (tasks d' ! i) = Some n)))))"
proof (intro conjI impI)
  assume "updateTask id' title description statusId statusName boardId d = (Response c body, d')
      \<and> c \<noteq> 200"
  then show "d' = d" using updateTask_rejected by blast
next
  assume "t \<in> set (tasks d) \<and> parseInt id' = Some (task_id t) \<and> trim s = []"
  then show "updateTask id' (JStr s) description statusId statusName boardId d
          = (Response 400 (Error ''Task title, if provided, must be a non-empty string''), d)"
    using updateTask_blank_title [of t d id' s] by simp
next
  assume ok: "updateTask id' title description statusId statusName boardId d = (Response 200 body, d')"
  from updateTask_success [OF ok] obtain taskId existing dt where
    p: "parseInt id' = Some taskId" and f: "task_findUnique_id taskId d = Some existing"
    and r: "body = Task_json (apply_data dt existing)" and d': "d' = task_update taskId dt d"
    and 1: "data_title dt = (if title = JUndefined then None else Some (trim (toString title)))"
    and 2: "data_description dt =
               (if description = JUndefined then None
                else Some (if description = JNull then None else Some (trim (toString description))))"
    and 3: "boardId = JUndefined \<and> data_board dt = None
                \<or> boardId \<noteq> JUndefined \<and> (\<exists>n. parseInt boardId = Some n
                     \<and> (\<exists>b \<in> set (boards d). board_id b = n) \<and> data_board dt = Some (Connect n))"
    and 4: "statusId = JUndefined \<and> statusName = JUndefined \<and> data_status dt = None
                \<or> \<not> (statusId = JUndefined \<and> statusName = JUndefined)
                    \<and> (statusId = JNull \<or> statusName = JNull) \<and> data_status dt = Some Disconnect
                \<or> \<not> (statusId = JUndefined \<and> statusName = JUndefined)
                    \<and> statusId \<noteq> JNull \<and> statusName \<noteq> JNull
                    \<and> (\<exists>n. parseInt statusId = Some n \<and> (\<exists>s \<in> set (statuses d). status_id s = n)
                          \<and> data_status dt = Some (Connect n))"
    by blast
  show "boards d' = boards d" "statuses d' = statuses d" "length (tasks d') = length (tasks d)"
    by (simp_all add: d' task_update_def)
  have nth: "tasks d' ! i = (if task_id (tasks d ! i) = taskId then apply_data dt (tasks d ! i) else tasks d ! i)"
    if "i < length (tasks d)" for i
    using that by (simp add: d' task_update_def)
  from f obtain j where j: "j < length (tasks d)" "tasks d ! j = existing" "task_id existing = taskId"
    unfolding task_findUnique_id_def by (blast dest: find_Some_nth)
  have ret: "\<exists>j < length (tasks d). task_id (tasks d ! j) = taskId \<and> body = Task_json (tasks d' ! j)"
    using j r nth [of j] by auto
  have rows: "\<forall>i < length (tasks d).
                 (task_id (tasks d ! i) \<noteq> taskId \<longrightarrow> tasks d' ! i = tasks d ! i)
                 \<and> (task_id (tasks d ! i) = taskId \<longrightarrow>
                      task_id (tasks d' ! i) = taskId
                      \<and> task_createdAt (tasks d' ! i) = task_createdAt (tasks d ! i)
                      \<and> task_title (tasks d' ! i)
                          = (if title = JUndefined then task_title (tasks d ! i)
                             else trim (toString title))
                      \<and> task_description (tasks d' ! i)
                          = (if description = JUndefined then task_description (tasks d ! i)
                             else if description = JNull then None
                             else Some (trim (toString description)))
                      \<and> (if boardId = JUndefined
                          then task_boardId (tasks d' ! i) = task_boardId (tasks d ! i)
                          else parseInt boardId = Some (task_boardId (tasks d' ! i)))
                      \<and> (if statusId = JUndefined \<and> statusName = JUndefined
                          then task_statusId (tasks d' ! i) = task_statusId (tasks d ! i)
                          else if statusId = JNull \<or> statusName = JNull
                          then task_statusId (tasks d' ! i) = None
                          else \<exists>n. parseInt statusId = Some n
                                 \<and> task_statusId (tasks d' ! i) = Some n))"
  proof (intro allI impI conjI)
    fix i assume "i < length (tasks d)" "task_id (tasks d ! i) \<noteq> taskId"
    then show "tasks d' ! i = tasks d ! i" by (simp add: nth)
  next
    fix i assume i: "i < length (tasks d)" "task_id (tasks d ! i) = taskId"
    then have e: "tasks d' ! i = apply_data dt (tasks d ! i)" by (simp add: nth)
    show "task_id (tasks d' ! i) = taskId" by (simp add: e apply_data_fields i)
    show "task_createdAt (tasks d' ! i) = task_createdAt (tasks d ! i)"
      by (simp add: e apply_data_fields)
    show "task_title (tasks d' ! i)
            = (if title = JUndefined then task_title (tasks d ! i) else trim (toString title))"
      by (simp add: e apply_data_fields 1)
    show "task_description (tasks d' ! i)
            = (if description = JUndefined then task_description (tasks d ! i)
               else if description = JNull then None
               else Some (trim (toString description)))"
      by (simp add: e apply_data_fields 2)
    show "if boardId = JUndefined
          then task_boardId (tasks d' ! i) = task_boardId (tasks d ! i)
          else parseInt boardId = Some (task_boardId (tasks d' ! i))"
      using 3 by (auto simp: e apply_data_fields)
    show "if statusId = JUndefined \<and> statusName = JUndefined
          then task_statusId (tasks d' ! i) = task_statusId (tasks d ! i)
          else if statusId = JNull \<or> statusName = JNull
          then task_statusId (tasks d' ! i) = None
          else \<exists>n. parseInt statusId = Some n \<and> task_statusId (tasks d' ! i) = Some n"
      using 4 by (auto simp: e apply_data_fields)
  qed
  from p ret rows show "\<exists>taskId. parseInt id' = Some taskId
            \<and> (\<exists>j < length (tasks d). task_id (tasks d ! j) = taskId \<and> body = Task_json (tasks d' ! j))
            \<and> (\<forall>i < length (tasks d).
                 (task_id (tasks d ! i) \<noteq> taskId \<longrightarrow> tasks d' ! i = tasks d ! i)
                 \<and> (task_id (tasks d ! i) = taskId \<longrightarrow>
                      task_id (tasks d' ! i) = taskId
                      \<and> task_createdAt (tasks d' ! i) = task_createdAt (tasks d ! i)
                      \<and> task_title (tasks d' ! i)
                          = (if title = JUndefined then task_title (tasks d ! i)
                             else trim (toString title))
                      \<and> task_description (tasks d' ! i)
                          = (if description = JUndefined then task_description (tasks d ! i)
                             else if description = JNull then None
                             else Some (trim (toString description)))
                      \<and> (if boardId = JUndefined
                          then task_boardId (tasks d' ! i) = task_boardId (tasks d ! i)
                          else parseInt boardId = Some (task_boardId (tasks d' ! i)))
                      \<and> (if statusId = JUndefined \<and> statusName = JUndefined
                          then task_statusId (tasks d' ! i) = task_statusId (tasks d ! i)
                          else if statusId = JNull \<or> statusName = JNull
                          then task_statusId (tasks d' ! i) = None
                          else \<exists>n. parseInt statusId = Some n
                                 \<and> task_statusId (tasks d' ! i) = Some n)))"
    by (intro exI [of _ taskId] conjI)
qed

lemma updateTask_example:
  "updateTask (JNum 2) (JStr (js '' Review docs '')) JUndefined JNull JUndefined JUndefined
     sample_tasks_db =
     (Response 200 (Task_json \<lparr>task_id = 2, task_boardId = 2, task_title = js ''Review docs'',
                     task_description = None, task_statusId = None, task_createdAt = 6\<rparr>),
      sample_tasks_db
        \<lparr>tasks := [\<lparr>task_id = 1, task_boardId = 1, task_title = js ''Write spec'',
                     task_description = Some (js ''first draft''), task_statusId = Some 1,
                     task_createdAt = 5\<rparr>,
                   \<lparr>task_id = 2, task_boardId = 2, task_title = js ''Review docs'',
                     task_description = None, task_statusId = None, task_createdAt = 6\<rparr>,
                   \<lparr>task_id = 3, task_boardId = 1, task_title = js ''Ship'',
                     task_description = None, task_statusId = Some 2, task_createdAt = 7\<rparr>]\<rparr>)"
  by (simp add: sample_tasks_db_eq js_eval store_eval controller_eval)

theorem updateTask_partial_witness:
  "updateTask (JNum 2) (JStr (js ''  '')) JUndefined JNull JUndefined JUndefined sample_tasks_db
     = (Response 400 (Error ''Task title, if provided, must be a non-empty string''),
        sample_tasks_db)
   \<and> sample_tasks_db = sample_tasks_db
   \<and> statuses
        (sample_tasks_db
          \<lparr>tasks := [\<lparr>task_id = 1, task_boardId = 1, task_title = js ''Write spec'',
                     task_description = Some (js ''first draft''), task_statusId = Some 1,
                     task_createdAt = 5\<rparr>,
                   \<lparr>task_id = 2, task_boardId = 2, task_title = js ''Review docs'',
                     task_description = None, task_statusId = None, task_createdAt = 6\<rparr>,
                   \<lparr>task_id = 3, task_boardId = 1, task_title = js ''Ship'',
                     task_description = None, task_statusId = Some 2, task_createdAt = 7\<rparr>]\<rparr>)
       = statuses sample_tasks_db"
proof -
  have a: "\<lparr>task_id = 2, task_boardId = 2, task_title = js ''Review'',
             task_description = None, task_statusId = Some 1, task_createdAt = 6\<rparr>
           \<in> set (tasks sample_tasks_db)"
    by (simp add: sample_tasks_db_eq)
  have b: "parseInt (JNum 2)
           = Some (task_id \<lparr>task_id = 2, task_boardId = 2, task_title = js ''Review'',
                     task_description = None, task_statusId = Some 1, task_createdAt = 6\<rparr>)"
    by (simp add: parseInt_more)
  have c: "trim (js ''  '') = []"
    by (simp add: js_eval)
  have n: "(400::nat) \<noteq> 200"
    by simp
  note w1 = updateTask_partial [where id' = "JNum 2" and s = "js ''  ''" and d = sample_tasks_db
      and description = JUndefined and statusId = JNull and statusName = JUndefined
      and boardId = JUndefined, THEN conjunct2, THEN conjunct1, THEN mp,
      OF conjI [OF a conjI [OF b c]]]
  note w2 = updateTask_partial [where title = "JStr (js ''  '')", THEN conjunct1, THEN mp,
      OF conjI [OF w1 n]]
  note w3 = updateTask_partial [THEN conjunct2, THEN conjunct2, THEN mp, OF updateTask_example]
  show ?thesis
    by (intro conjI) (rule w1, rule w2, rule w3 [THEN conjunct2, THEN conjunct1])
qed

section \<open>Listing boards\<close>

lemma sorted_desc_rev_sort_key:
  "sorted_wrt (\<lambda>x y. f y \<le> f x) (rev (sort_key f xs))"
proof -
  have "sorted (map f (sort_key f xs))" by simp
  then have "sorted_wrt (\<lambda>x y. f x \<le> f y) (sort_key f xs)"
    by (simp add: sorted_map)
  then show ?thesis
    by (simp add: sorted_wrt_rev)
qed

text \<open>
  Claim C8. \<open>getBoards\<close> answers 200 with all boards (each board of the store once),
  ordered by creation time descending, and with each board exactly the tasks whose
  \<open>boardId\<close> is that board's id.
\<close>

theorem getBoards_lists:
  "\<exists>bs. getBoards d = (Response 200 (Boards_json bs), d)
        \<and> mset (map fst bs) = mset (boards d)
        \<and> sorted_wrt (\<lambda>x y. board_createdAt (fst y) \<le> board_createdAt (fst x)) bs
        \<and> (\<forall>(b, ts) \<in> set bs.
              ts = filter (\<lambda>t. task_boardId t = board_id b) (tasks d)
              \<and> set ts = {t \<in> set (tasks d). task_boardId t = board_id b})"
proof -
  let ?bs = "board_findMany_tasks_desc d"
  have m: "map fst ?bs = rev (sort_key board_createdAt (boards d))"
    by (simp add: board_findMany_tasks_desc_def comp_def)
  have 1: "mset (map fst ?bs) = mset (boards d)"
    by (simp add: m)
  have "sorted_wrt (\<lambda>x y. board_createdAt y \<le> board_createdAt x) (map fst ?bs)"
    unfolding m by (rule sorted_desc_rev_sort_key)
  then have 2: "sorted_wrt (\<lambda>x y. board_createdAt (fst y) \<le> board_createdAt (fst x)) ?bs"
    by (simp add: sorted_wrt_map)
  have 3: "\<forall>(b, ts) \<in> set ?bs.
              ts = filter (\<lambda>t. task_boardId t = board_id b) (tasks d)
              \<and> set ts = {t \<in> set (tasks d). task_boardId t = board_id b}"
    by (auto simp: board_findMany_tasks_desc_def)
  show ?thesis
    using 1 2 3 by (intro exI [of _ ?bs]) (simp add: getBoards_def)
qed

lemma getBoards_example:
  "getBoards sample_tasks_db =
     (Response 200 (Boards_json
        [(\<lparr>board_id = 2, board_name = js ''Sprint 2'', board_createdAt = 3\<rparr>,
          [\<lparr>task_id = 2, task_boardId = 2, task_title = js ''Review'',
             task_description = None, task_statusId = Some 1, task_createdAt = 6\<rparr>]),
         (\<lparr>board_id = 1, board_name = js ''Sprint 1'', board_createdAt = 1\<rparr>,
          [\<lparr>task_id = 1, task_boardId = 1, task_title = js ''Write spec'',
             task_description = Some (js ''first draft''), task_statusId = Some 1,
             task_createdAt = 5\<rparr>,
           \<lparr>task_id = 3, task_boardId = 1, task_title = js ''Ship'',
             task_description = None, task_statusId = Some 2, task_createdAt = 7\<rparr>])]),
      sample_tasks_db)"
  by (simp add: getBoards_def board_findMany_tasks_desc_def sample_tasks_db_eq)

theorem getBoards_lists_witness:
  "\<exists>bs. (Response 200 (Boards_json
        [(\<lparr>board_id = 2, board_name = js ''Sprint 2'', board_createdAt = 3\<rparr>,
          [\<lparr>task_id = 2, task_boardId = 2, task_title = js ''Review'',
             task_description = None, task_statusId = Some 1, task_createdAt = 6\<rparr>]),
         (\<lparr>board_id = 1, board_name = js ''Sprint 1'', board_createdAt = 1\<rparr>,
          [\<lparr>task_id = 1, task_boardId = 1, task_title = js ''Write spec'',
             task_description = Some (js ''first draft''), task_statusId = Some 1,
             task_createdAt = 5\<rparr>,
           \<lparr>task_id = 3, task_boardId = 1, task_title = js ''Ship'',
             task_description = None, task_statusId = Some 2, task_createdAt = 7\<rparr>])]),
      sample_tasks_db) = (Response 200 (Boards_json bs), sample_tasks_db)
     \<and> mset (map fst bs) = mset (boards sample_tasks_db)"
  using getBoards_lists [of sample_tasks_db] unfolding getBoards_example by blast

section \<open>Referential integrity\<close>

subsection \<open>Referential integrity is preserved\<close>

lemma ref_ok_iff:
  "ref_ok d \<longleftrightarrow>
     (\<forall>t \<in> set (tasks d).
        task_boardId t \<in> set (map board_id (boards d))
        \<and> (\<forall>s. task_statusId t = Some s \<longrightarrow> s \<in> set (map status_id (statuses d))))"
proof -
  have a: "(\<exists>b \<in> set bs. board_id b = x) \<longleftrightarrow> x \<in> set (map board_id bs)" for bs x
    by force
  have b: "(case so of None \<Rightarrow> True | Some s \<Rightarrow> \<exists>st \<in> set ss. status_id st = s)
           \<longleftrightarrow> (\<forall>s. so = Some s \<longrightarrow> s \<in> set (map status_id ss))" for so ss
    by (cases so) force+
  show ?thesis unfolding ref_ok_def a b ..
qed

lemma board_ids_update_name:
  "map board_id (map (\<lambda>b. if board_id b = i then b\<lparr>board_name := n\<rparr> else b) bs) = map board_id bs"
  by (induction bs) auto

lemma status_ids_update_name:
  "map status_id (map (\<lambda>s. if status_id s = i then s\<lparr>status_name := n\<rparr> else s) ss) = map status_id ss"
  by (induction ss) auto

lemma ref_ok_board_create: "ref_ok d \<Longrightarrow> ref_ok (snd (board_create n now d))"
  by (simp add: ref_ok_iff board_create_def Let_def)

lemma ref_ok_board_update_name: "ref_ok d \<Longrightarrow> ref_ok (board_update_name i n d)"
proof -
  have fields: "tasks (board_update_name i n d) = tasks d"
    "statuses (board_update_name i n d) = statuses d"
    "map board_id (boards (board_update_name i n d)) = map board_id (boards d)"
    by (simp_all add: board_update_name_def board_ids_update_name)
  show "ref_ok d \<Longrightarrow> ref_ok (board_update_name i n d)"
    by (simp only: ref_ok_iff fields)
qed

lemma ref_ok_status_create: "ref_ok d \<Longrightarrow> ref_ok (snd (status_create n now d))"
  by (simp add: ref_ok_iff status_create_def Let_def)

lemma ref_ok_status_update_name: "ref_ok d \<Longrightarrow> ref_ok (status_update_name i n d)"
proof -
  have fields: "tasks (status_update_name i n d) = tasks d"
    "boards (status_update_name i n d) = boards d"
    "map status_id (statuses (status_update_name i n d)) = map status_id (statuses d)"
    by (simp_all add: status_update_name_def status_ids_update_name)
  show "ref_ok d \<Longrightarrow> ref_ok (status_update_name i n d)"
    by (simp only: ref_ok_iff fields)
qed


lemma ref_ok_cascade: "ref_ok d \<Longrightarrow> ref_ok (board_delete i (task_deleteMany_boardId i d))"
  by (auto simp: ref_ok_iff task_deleteMany_boardId_def board_delete_def)


lemma ref_ok_unlink_delete:
  "ref_ok d \<Longrightarrow> ref_ok (status_delete i (task_updateMany_statusId_null i d))"
  by (auto simp: ref_ok_iff task_updateMany_statusId_null_def status_delete_def)

lemma ref_ok_task_delete: "ref_ok d \<Longrightarrow> ref_ok (task_delete i d)"
  by (auto simp: ref_ok_iff task_delete_def)

lemma ref_ok_task_create:
  "ref_ok d \<Longrightarrow> b \<in> set (boards d) \<Longrightarrow> s \<in> set (statuses d) \<Longrightarrow>
   ref_ok (snd (task_create title description (board_id b) (Some (status_id s)) now d))"
  by (auto simp: ref_ok_iff task_create_def Let_def)

lemma ref_ok_task_update:
  assumes "ref_ok d"
    and "data_board dt = None \<or> (\<exists>b \<in> set (boards d). data_board dt = Some (Connect (board_id b)))"
    and "data_status dt = None \<or> data_status dt = Some Disconnect
         \<or> (\<exists>s \<in> set (statuses d). data_status dt = Some (Connect (status_id s)))"
  shows "ref_ok (task_update i dt d)"
proof -
  have row: "task_boardId (apply_data dt t) \<in> set (map board_id (boards d))
      \<and> (\<forall>s. task_statusId (apply_data dt t) = Some s \<longrightarrow> s \<in> set (map status_id (statuses d)))"
    if "t \<in> set (tasks d)" for t
    using that assms by (auto simp: ref_ok_iff apply_data_fields)
  show ?thesis
    using assms(1) row by (auto simp: ref_ok_iff task_update_def)
qed

lemma ref_ok_createBoard: "ref_ok d \<Longrightarrow> ref_ok (snd (createBoard name now d))"
  by (simp add: createBoard_def Let_def case_prod_beta ref_ok_board_create split: option.splits)

lemma ref_ok_updateBoard: "ref_ok d \<Longrightarrow> ref_ok (snd (updateBoard id' name d))"
  by (simp add: updateBoard_def Let_def ref_ok_board_update_name split: option.splits)

lemma ref_ok_deleteBoard: "ref_ok d \<Longrightarrow> ref_ok (snd (deleteBoard id' d))"
  by (simp add: deleteBoard_def ref_ok_cascade split: option.splits)

lemma ref_ok_createStatus: "ref_ok d \<Longrightarrow> ref_ok (snd (createStatus name now d))"
  by (simp add: createStatus_def Let_def case_prod_beta ref_ok_status_create split: option.splits)

lemma ref_ok_updateStatus: "ref_ok d \<Longrightarrow> ref_ok (snd (updateStatus id' name d))"
  by (simp add: updateStatus_def Let_def ref_ok_status_update_name split: option.splits)

lemma ref_ok_deleteStatus: "ref_ok d \<Longrightarrow> ref_ok (snd (deleteStatus id' d))"
  by (simp add: deleteStatus_def ref_ok_unlink_delete split: option.splits)

lemma ref_ok_deleteTask: "ref_ok d \<Longrightarrow> ref_ok (snd (deleteTask id' d))"
  by (simp add: deleteTask_def ref_ok_task_delete split: option.splits)

lemma ref_ok_createTask:
  assumes "ref_ok d"
  shows "ref_ok (snd (createTask title description boardId statusId statusName now d))"
proof -
  have "ref_ok (snd (task_create t ds n (Some (status_id s)) now d))"
    if "board_findUnique_id n d = Some b" "resolveStatus statusId statusName d = Inr s"
    for t ds n b s
  proof -
    from that(1) have "b \<in> set (boards d)" "board_id b = n"
      by (auto simp: board_findUnique_id_def dest: find_SomeD)
    moreover from that(2) have "s \<in> set (statuses d)"
      by (simp add: resolveStatus_Inr)
    ultimately show ?thesis
      using ref_ok_task_create [OF assms, of b s t ds now] by simp
  qed
  then show ?thesis
    using assms
    by (auto simp: createTask_def case_prod_beta split: option.splits sum.splits)
qed

lemma ref_ok_updateTask:
  assumes "ref_ok d"
  shows "ref_ok (snd (updateTask id' title description statusId statusName boardId d))"
proof -
  obtain c body d' where
    r: "updateTask id' title description statusId statusName boardId d = (Response c body, d')"
    by (metis response.exhaust surj_pair)
  show ?thesis
  proof (cases "c = 200")
    case False
    with r have "d' = d" by (rule updateTask_rejected)
    with r assms show ?thesis by simp
  next
    case True
    with r have "updateTask id' title description statusId statusName boardId d
                 = (Response 200 body, d')" by simp
    from updateTask_success [OF this] obtain taskId dt where
      d': "d' = task_update taskId dt d"
      and b: "boardId = JUndefined \<and> data_board dt = None
              \<or> boardId \<noteq> JUndefined \<and> (\<exists>n. parseInt boardId = Some n
                   \<and> (\<exists>b \<in> set (boards d). board_id b = n) \<and> data_board dt = Some (Connect n))"
      and s: "statusId = JUndefined \<and> statusName = JUndefined \<and> data_status dt = None
              \<or> \<not> (statusId = JUndefined \<and> statusName = JUndefined)
                  \<and> (statusId = JNull \<or> statusName = JNull) \<and> data_status dt = Some Disconnect
              \<or> \<not> (statusId = JUndefined \<and> statusName = JUndefined)
                  \<and> statusId \<noteq> JNull \<and> statusName \<noteq> JNull
                  \<and> (\<exists>n. parseInt statusId = Some n \<and> (\<exists>s \<in> set (statuses d). status_id s = n)
                        \<and> data_status dt = Some (Connect n))"
      by blast
    from b have b': "data_board dt = None
        \<or> (\<exists>b \<in> set (boards d). data_board dt = Some (Connect (board_id b)))"
      by auto
    from s have s': "data_status dt = None \<or> data_status dt = Some Disconnect
         \<or> (\<exists>s \<in> set (statuses d). data_status dt = Some (Connect (status_id s)))"
      by auto
    from ref_ok_task_update [OF assms b' s'] show ?thesis by (simp add: r d')
  qed
qed

lemma ref_ok_handle: "ref_ok d \<Longrightarrow> ref_ok (snd (handle now r d))"
  by (cases r)
    (simp_all add: getBoards_def getStatuses_def ref_ok_createBoard ref_ok_updateBoard
      ref_ok_deleteBoard ref_ok_createTask ref_ok_updateTask ref_ok_deleteTask
      ref_ok_createStatus ref_ok_updateStatus ref_ok_deleteStatus)

lemma ref_ok_empty: "ref_ok empty_db"
  by (simp add: ref_ok_def empty_db_def)

lemma reachable_ref_ok: "reachable d \<Longrightarrow> ref_ok d"
  by (induction rule: reachable.induct) (simp_all add: ref_ok_empty ref_ok_handle)

text \<open>So it is for what the mounted router produces from a reachable state.\<close>

lemma routed_ref_ok: "reachable d \<Longrightarrow> ref_ok (snd (router c now r d))"
  by (rule reachable_ref_ok) (rule reachable_router)

lemma reachable_serve_all: "reachable d \<Longrightarrow> reachable (serve_all rs d)"
proof (induction rs arbitrary: d)
  case Nil
  then show ?case by simp
next
  case (Cons x rs)
  obtain now r where x: "x = (now, r)" by (cases x)
  from Cons.prems have "reachable (snd (handle now r d))" by (rule reachable.serve)
  then show ?case unfolding x by (simp add: Cons.IH)
qed

lemma reachable_sample_tasks_db: "reachable sample_tasks_db"
  unfolding sample_tasks_db_def sample_db_def
  by (intro reachable_serve_all reachable.start)


text \<open>Removing the board before its tasks would leave orphans.\<close>

lemma referential_order_matters: "\<not> ref_ok (board_delete 1 sample_tasks_db)"
  by (simp add: ref_ok_def board_delete_def sample_tasks_db_eq)


section \<open>Renaming boards and statuses\<close>

subsection \<open>Unique ids\<close>

lemma distinct_map_eq:
  "distinct (map f xs) \<Longrightarrow> x \<in> set xs \<Longrightarrow> y \<in> set xs \<Longrightarrow> f x = f y \<Longrightarrow> x = y"
  by (meson distinct_map inj_onD)

lemma ids_ok_iff:
  "ids_ok d \<longleftrightarrow>
     distinct (map board_id (boards d)) \<and> (\<forall>i \<in> set (map board_id (boards d)). i < board_seq d)
     \<and> distinct (map status_id (statuses d))
     \<and> (\<forall>i \<in> set (map status_id (statuses d)). i < status_seq d)
     \<and> distinct (map task_id (tasks d)) \<and> (\<forall>i \<in> set (map task_id (tasks d)). i < task_seq d)"
  by (simp add: ids_ok_def)

lemma ids_ok_board_create: "ids_ok d \<Longrightarrow> ids_ok (snd (board_create n now d))"
  by (fastforce simp: ids_ok_iff board_create_def Let_def)

lemma ids_ok_status_create: "ids_ok d \<Longrightarrow> ids_ok (snd (status_create n now d))"
  by (fastforce simp: ids_ok_iff status_create_def Let_def)

lemma ids_ok_task_create: "ids_ok d \<Longrightarrow> ids_ok (snd (task_create t ds b s now d))"
  by (fastforce simp: ids_ok_iff task_create_def Let_def)

lemma ids_ok_board_update_name: "ids_ok d \<Longrightarrow> ids_ok (board_update_name i n d)"
proof -
  have fields: "tasks (board_update_name i n d) = tasks d"
    "statuses (board_update_name i n d) = statuses d"
    "map board_id (boards (board_update_name i n d)) = map board_id (boards d)"
    "board_seq (board_update_name i n d) = board_seq d"
    "status_seq (board_update_name i n d) = status_seq d"
    "task_seq (board_update_name i n d) = task_seq d"
    by (simp_all add: board_update_name_def board_ids_update_name)
  show "ids_ok d \<Longrightarrow> ids_ok (board_update_name i n d)"
    by (simp add: ids_ok_iff fields)
qed

lemma ids_ok_status_update_name: "ids_ok d \<Longrightarrow> ids_ok (status_update_name i n d)"
proof -
  have fields: "tasks (status_update_name i n d) = tasks d"
    "boards (status_update_name i n d) = boards d"
    "map status_id (statuses (status_update_name i n d)) = map status_id (statuses d)"
    "board_seq (status_update_name i n d) = board_seq d"
    "status_seq (status_update_name i n d) = status_seq d"
    "task_seq (status_update_name i n d) = task_seq d"
    by (simp_all add: status_update_name_def status_ids_update_name)
  show "ids_ok d \<Longrightarrow> ids_ok (status_update_name i n d)"
    by (simp add: ids_ok_iff fields)
qed

lemma ids_ok_task_update: "ids_ok d \<Longrightarrow> ids_ok (task_update i dt d)"
proof -
  have fields: "map task_id (tasks (task_update i dt d)) = map task_id (tasks d)"
    "statuses (task_update i dt d) = statuses d"
    "boards (task_update i dt d) = boards d"
    "board_seq (task_update i dt d) = board_seq d"
    "status_seq (task_update i dt d) = status_seq d"
    "task_seq (task_update i dt d) = task_seq d"
    by (simp_all add: task_update_def apply_data_fields)
  show "ids_ok d \<Longrightarrow> ids_ok (task_update i dt d)"
    by (simp add: ids_ok_iff fields)
qed

lemma ids_ok_cascade: "ids_ok d \<Longrightarrow> ids_ok (board_delete i (task_deleteMany_boardId i d))"
  by (simp add: ids_ok_def board_delete_def task_deleteMany_boardId_def distinct_map_filter)

lemma ids_ok_unlink_delete:
  "ids_ok d \<Longrightarrow> ids_ok (status_delete i (task_updateMany_statusId_null i d))"
proof -
  have "map task_id (map (\<lambda>t. if task_statusId t = Some i then t\<lparr>task_statusId := None\<rparr> else t) ts)
        = map task_id ts" for ts
    by (induction ts) auto
  then have fields: "map task_id (tasks (status_delete i (task_updateMany_statusId_null i d)))
      = map task_id (tasks d)"
    by (simp add: status_delete_def task_updateMany_statusId_null_def)
  have rest: "boards (status_delete i (task_updateMany_statusId_null i d)) = boards d"
    "statuses (status_delete i (task_updateMany_statusId_null i d))
       = filter (\<lambda>s. status_id s \<noteq> i) (statuses d)"
    "board_seq (status_delete i (task_updateMany_statusId_null i d)) = board_seq d"
    "status_seq (status_delete i (task_updateMany_statusId_null i d)) = status_seq d"
    "task_seq (status_delete i (task_updateMany_statusId_null i d)) = task_seq d"
    by (simp_all add: status_delete_def task_updateMany_statusId_null_def)
  assume "ids_ok d"
  then show ?thesis
    unfolding ids_ok_iff fields rest by (simp add: distinct_map_filter)
qed

lemma ids_ok_task_delete: "ids_ok d \<Longrightarrow> ids_ok (task_delete i d)"
  by (simp add: ids_ok_def task_delete_def distinct_map_filter)

lemma ids_ok_handle: "ids_ok d \<Longrightarrow> ids_ok (snd (handle now r d))"
proof (cases r)
  case (POST_tasks title description boardId statusId statusName)
  assume "ids_ok d"
  then show ?thesis
    by (auto simp: POST_tasks createTask_def case_prod_beta ids_ok_task_create
        split: option.splits sum.splits)
next
  case (PUT_tasks id' title description statusId statusName boardId)
  assume "ids_ok d"
  then show ?thesis
    by (auto simp: PUT_tasks updateTask_def ids_ok_task_update split: option.splits sum.splits)
qed (simp_all add: getBoards_def getStatuses_def createBoard_def updateBoard_def deleteBoard_def
      createStatus_def updateStatus_def deleteStatus_def deleteTask_def Let_def case_prod_beta
      ids_ok_board_create ids_ok_status_create ids_ok_board_update_name
      ids_ok_status_update_name ids_ok_cascade ids_ok_unlink_delete ids_ok_task_delete
      split: option.splits)

lemma reachable_ids_ok: "reachable d \<Longrightarrow> ids_ok d"
  by (induction rule: reachable.induct) (simp_all add: ids_ok_handle, simp add: ids_ok_def empty_db_def)

subsection \<open>Unique, trimmed names\<close>

lemma distinct_names_update:
  assumes "distinct (map key xs)" "distinct (map nm xs)"
    and "\<forall>x \<in> set xs. nm x = n \<longrightarrow> key x = i"
    and "\<And>x. nm (upd x) = n"
  shows "distinct (map nm (map (\<lambda>x. if key x = i then upd x else x) xs))"
  using assms(1-3)
proof (induction xs)
  case Nil
  then show ?case by simp
next
  case (Cons x xs)
  let ?f = "\<lambda>x. if key x = i then upd x else x"
  from Cons have IH: "distinct (map nm (map ?f xs))" by simp
  have "nm (?f x) \<notin> set (map nm (map ?f xs))"
  proof
    assume "nm (?f x) \<in> set (map nm (map ?f xs))"
    then obtain y where y: "y \<in> set xs" "nm (?f x) = nm (?f y)" by auto
    from Cons.prems(1) y(1) have kxy: "key x \<noteq> key y" by auto
    from Cons.prems(2) y(1) have nxy: "nm x \<noteq> nm y" by auto
    show False
    proof (cases "key x = i")
      case True
      with kxy have "key y \<noteq> i" by simp
      with y(2) True have "nm y = n" by (simp add: assms(4))
      with Cons.prems(3) y(1) \<open>key y \<noteq> i\<close> show False by simp
    next
      case False
      show False
      proof (cases "key y = i")
        case True
        with y(2) False have "nm x = n" by (simp add: assms(4))
        with Cons.prems(3) False show False by simp
      next
        case False
        with y(2) \<open>key x \<noteq> i\<close> nxy show False by simp
      qed
    qed
  qed
  with IH show ?case by simp
qed

lemma names_ok_board_create:
  assumes "names_ok d" "n \<noteq> []" "trim n = n" "\<forall>b \<in> set (boards d). board_name b \<noteq> n"
  shows "names_ok (snd (board_create n now d))"
  using assms by (auto simp: names_ok_def board_create_def Let_def)

lemma names_ok_status_create:
  assumes "names_ok d" "n \<noteq> []" "trim n = n" "\<forall>s \<in> set (statuses d). status_name s \<noteq> n"
  shows "names_ok (snd (status_create n now d))"
  using assms by (auto simp: names_ok_def status_create_def Let_def)

lemma names_ok_board_update_name:
  assumes "names_ok d" "ids_ok d" "n \<noteq> []" "trim n = n"
    and "\<forall>b \<in> set (boards d). board_name b = n \<longrightarrow> board_id b = i"
  shows "names_ok (board_update_name i n d)"
proof -
  have "distinct (map board_name
          (map (\<lambda>b. if board_id b = i then b\<lparr>board_name := n\<rparr> else b) (boards d)))"
    using assms by (intro distinct_names_update) (simp_all add: names_ok_def ids_ok_def)
  then show ?thesis
    using assms(1,3,4) by (auto simp: names_ok_def board_update_name_def simp del: map_map)
qed

lemma names_ok_status_update_name:
  assumes "names_ok d" "ids_ok d" "n \<noteq> []" "trim n = n"
    and "\<forall>s \<in> set (statuses d). status_name s = n \<longrightarrow> status_id s = i"
  shows "names_ok (status_update_name i n d)"
proof -
  have "distinct (map status_name
          (map (\<lambda>s. if status_id s = i then s\<lparr>status_name := n\<rparr> else s) (statuses d)))"
    using assms by (intro distinct_names_update) (simp_all add: names_ok_def ids_ok_def)
  then show ?thesis
    using assms(1,3,4) by (auto simp: names_ok_def status_update_name_def simp del: map_map)
qed

lemma names_ok_cascade: "names_ok d \<Longrightarrow> names_ok (board_delete i (task_deleteMany_boardId i d))"
  by (simp add: names_ok_def board_delete_def task_deleteMany_boardId_def distinct_map_filter)

lemma names_ok_unlink_delete:
  "names_ok d \<Longrightarrow> names_ok (status_delete i (task_updateMany_statusId_null i d))"
  by (simp add: names_ok_def status_delete_def task_updateMany_statusId_null_def
      distinct_map_filter)

lemma not_blank_trim: "\<not> blank v \<Longrightarrow> trim (toString v) \<noteq> []"
  by (simp add: blank_def)

lemma names_ok_frame:
  "boards d' = boards d \<Longrightarrow> statuses d' = statuses d \<Longrightarrow> names_ok d' = names_ok d"
  by (simp add: names_ok_def)

lemma createTask_frame:
  "boards (snd (createTask title description boardId statusId statusName now d)) = boards d"
  "statuses (snd (createTask title description boardId statusId statusName now d)) = statuses d"
  by (simp_all add: createTask_def task_create_def Let_def split: option.splits sum.splits)

lemma updateTask_frame:
  "boards (snd (updateTask id' title description statusId statusName boardId d)) = boards d"
  "statuses (snd (updateTask id' title description statusId statusName boardId d)) = statuses d"
  by (simp_all add: updateTask_def task_update_def split: option.splits sum.splits)

lemma deleteTask_frame:
  "boards (snd (deleteTask id' d)) = boards d"
  "statuses (snd (deleteTask id' d)) = statuses d"
  by (simp_all add: deleteTask_def task_delete_def split: option.splits)

lemma names_ok_createBoard:
  assumes "names_ok d"
  shows "names_ok (snd (createBoard name now d))"
proof (cases "blank name")
  case True
  then show ?thesis using assms by (simp add: createBoard_def)
next
  case False
  let ?n = "trim (toString name)"
  show ?thesis
  proof (cases "board_findUnique_name ?n d")
    case (Some b)
    then show ?thesis using assms False by (simp add: createBoard_def Let_def)
  next
    case None
    then have "\<forall>b \<in> set (boards d). board_name b \<noteq> ?n"
      by (simp add: board_findUnique_name_def find_None_iff)
    from names_ok_board_create [OF assms not_blank_trim [OF False] trim_trim this]
    show ?thesis using False None by (simp add: createBoard_def Let_def case_prod_beta)
  qed
qed

lemma names_ok_createStatus:
  assumes "names_ok d"
  shows "names_ok (snd (createStatus name now d))"
proof (cases "blank name")
  case True
  then show ?thesis using assms by (simp add: createStatus_def)
next
  case False
  let ?n = "trim (toString name)"
  show ?thesis
  proof (cases "status_findUnique_name ?n d")
    case (Some b)
    then show ?thesis using assms False by (simp add: createStatus_def Let_def)
  next
    case None
    then have "\<forall>s \<in> set (statuses d). status_name s \<noteq> ?n"
      by (simp add: status_findUnique_name_def find_None_iff)
    from names_ok_status_create [OF assms not_blank_trim [OF False] trim_trim this]
    show ?thesis using False None by (simp add: createStatus_def Let_def case_prod_beta)
  qed
qed

lemma updateBoard_cases:
  "snd (updateBoard id' name d) = d
   \<or> (\<exists>i. parseInt id' = Some i \<and> \<not> blank name
          \<and> (\<exists>b. board_findUnique_id i d = Some b)
          \<and> board_findFirst_name_not_id (trim (toString name)) i d = None
          \<and> updateBoard id' name d
              = (Response 200 (Board_json (the (board_findUnique_id i d)
                                             \<lparr>board_name := trim (toString name)\<rparr>)),
                 board_update_name i (trim (toString name)) d))"
  by (simp add: updateBoard_def Let_def split: option.splits)

lemma updateStatus_cases:
  "snd (updateStatus id' name d) = d
   \<or> (\<exists>i. parseInt id' = Some i \<and> \<not> blank name
          \<and> (\<exists>s. status_findUnique_id i d = Some s)
          \<and> (status_findUnique_name (trim (toString name)) d = None
              \<or> (\<exists>c. status_findUnique_name (trim (toString name)) d = Some c \<and> status_id c = i))
          \<and> updateStatus id' name d
              = (Response 200 (Status_json (the (status_findUnique_id i d)
                                              \<lparr>status_name := trim (toString name)\<rparr>)),
                 status_update_name i (trim (toString name)) d))"
  by (simp add: updateStatus_def Let_def split: option.splits)

lemma names_ok_updateBoard:
  assumes "names_ok d" "ids_ok d"
  shows "names_ok (snd (updateBoard id' name d))"
  using updateBoard_cases [of id' name d]
proof (elim disjE exE conjE)
  assume "snd (updateBoard id' name d) = d"
  with assms show ?thesis by simp
next
  fix i b
  let ?n = "trim (toString name)"
  assume nb: "\<not> blank name" and nf: "board_findFirst_name_not_id ?n i d = None"
    and r: "updateBoard id' name d
              = (Response 200 (Board_json (the (board_findUnique_id i d)\<lparr>board_name := ?n\<rparr>)),
                 board_update_name i ?n d)"
  from nf have "\<forall>b \<in> set (boards d). board_name b = ?n \<longrightarrow> board_id b = i"
    by (auto simp: board_findFirst_name_not_id_def find_None_iff)
  from names_ok_board_update_name [OF assms not_blank_trim [OF nb] trim_trim this]
  show ?thesis by (simp add: r)
qed

lemma names_ok_updateStatus:
  assumes "names_ok d" "ids_ok d"
  shows "names_ok (snd (updateStatus id' name d))"
  using updateStatus_cases [of id' name d]
proof (elim disjE exE conjE)
  assume "snd (updateStatus id' name d) = d"
  with assms show ?thesis by simp
next
  fix i s
  let ?n = "trim (toString name)"
  assume nb: "\<not> blank name" and nf: "status_findUnique_name ?n d = None"
    and r: "updateStatus id' name d
              = (Response 200 (Status_json (the (status_findUnique_id i d)\<lparr>status_name := ?n\<rparr>)),
                 status_update_name i ?n d)"
  from nf have "\<forall>s \<in> set (statuses d). status_name s = ?n \<longrightarrow> status_id s = i"
    by (auto simp: status_findUnique_name_def find_None_iff)
  from names_ok_status_update_name [OF assms not_blank_trim [OF nb] trim_trim this]
  show ?thesis by (simp add: r)
next
  fix i s c
  let ?n = "trim (toString name)"
  assume nb: "\<not> blank name" and f: "status_findUnique_name ?n d = Some c" "status_id c = i"
    and r: "updateStatus id' name d
              = (Response 200 (Status_json (the (status_findUnique_id i d)\<lparr>status_name := ?n\<rparr>)),
                 status_update_name i ?n d)"
  have "\<forall>s \<in> set (statuses d). status_name s = ?n \<longrightarrow> status_id s = i"
  proof (intro ballI impI)
    fix s assume s: "s \<in> set (statuses d)" "status_name s = ?n"
    from f(1) have c: "c \<in> set (statuses d)" "status_name c = ?n"
      by (auto simp: status_findUnique_name_def dest: find_SomeD)
    from assms(1) have "distinct (map status_name (statuses d))"
      by (simp add: names_ok_def)
    from distinct_map_eq [OF this s(1) c(1)] s(2) c(2) have "s = c" by simp
    with f(2) show "status_id s = i" by simp
  qed
  from names_ok_status_update_name [OF assms not_blank_trim [OF nb] trim_trim this]
  show ?thesis by (simp add: r)
qed

lemma names_ok_deleteBoard: "names_ok d \<Longrightarrow> names_ok (snd (deleteBoard id' d))"
  by (simp add: deleteBoard_def names_ok_cascade split: option.splits)

lemma names_ok_deleteStatus: "names_ok d \<Longrightarrow> names_ok (snd (deleteStatus id' d))"
  by (simp add: deleteStatus_def names_ok_unlink_delete split: option.splits)

lemma names_ok_handle: "names_ok d \<Longrightarrow> ids_ok d \<Longrightarrow> names_ok (snd (handle now r d))"
  by (cases r)
    (simp_all add: getBoards_def getStatuses_def names_ok_createBoard names_ok_createStatus
      names_ok_updateBoard names_ok_updateStatus names_ok_deleteBoard names_ok_deleteStatus
      names_ok_frame [OF createTask_frame] names_ok_frame [OF updateTask_frame]
      names_ok_frame [OF deleteTask_frame])

lemma reachable_names_ok: "reachable d \<Longrightarrow> names_ok d"
proof (induction rule: reachable.induct)
  case start
  show ?case by (simp add: names_ok_def empty_db_def)
next
  case (serve d now r)
  then show ?case by (simp add: names_ok_handle reachable_ids_ok)
qed

subsection \<open>Renaming to the same name\<close>

lemma find_by_key:
  "distinct (map f xs) \<Longrightarrow> x \<in> set xs \<Longrightarrow> find (\<lambda>y. f y = f x) xs = Some x"
proof -
  assume d: "distinct (map f xs)" and x: "x \<in> set xs"
  then obtain y where y: "find (\<lambda>y. f y = f x) xs = Some y"
    using find_Some_ex [of xs "\<lambda>y. f y = f x"] by auto
  then have "y \<in> set xs" "f y = f x" by (auto dest: find_SomeD)
  with d x have "y = x" by (auto dest: distinct_map_eq)
  with y show ?thesis by simp
qed

lemma map_update_same:
  assumes "distinct (map f xs)" "x \<in> set xs" "g x = x"
  shows "map (\<lambda>y. if f y = f x then g y else y) xs = xs"
proof (rule map_idI)
  fix y assume "y \<in> set xs"
  with assms show "(if f y = f x then g y else y) = y"
    by (auto dest: distinct_map_eq)
qed

lemma updateBoard_same_name:
  assumes "ids_ok d" "names_ok d"
    and "b \<in> set (boards d)" "parseInt id' = Some (board_id b)" "trim s = board_name b"
  shows "updateBoard id' (JStr s) d = (Response 200 (Board_json b), d)"
proof -
  from assms(1) have di: "distinct (map board_id (boards d))" by (simp add: ids_ok_def)
  from assms(2) have dn: "distinct (map board_name (boards d))" by (simp add: names_ok_def)
  from assms(2,3) have ne: "board_name b \<noteq> []" by (simp add: names_ok_def)
  with assms(5) have nb: "\<not> blank (JStr s)" by (simp add: blank_JStr)
  have f: "board_findUnique_id (board_id b) d = Some b"
    unfolding board_findUnique_id_def using di assms(3) by (rule find_by_key)
  have "\<forall>x \<in> set (boards d). \<not> (board_name x = board_name b \<and> \<not> board_id x = board_id b)"
    using dn assms(3) by (auto dest: distinct_map_eq)
  then have c: "board_findFirst_name_not_id (board_name b) (board_id b) d = None"
    by (simp add: board_findFirst_name_not_id_def find_None_iff)
  have "map (\<lambda>y. if board_id y = board_id b then y\<lparr>board_name := board_name b\<rparr> else y) (boards d)
        = boards d"
    using di assms(3) by (rule map_update_same) simp
  then have u: "board_update_name (board_id b) (board_name b) d = d"
    by (simp add: board_update_name_def)
  show ?thesis
    using nb by (simp add: updateBoard_def assms(4) assms(5) f c u)
qed

lemma updateStatus_same_name:
  assumes "ids_ok d" "names_ok d"
    and "st \<in> set (statuses d)" "parseInt id' = Some (status_id st)" "trim s = status_name st"
  shows "updateStatus id' (JStr s) d = (Response 200 (Status_json st), d)"
proof -
  from assms(1) have di: "distinct (map status_id (statuses d))" by (simp add: ids_ok_def)
  from assms(2) have dn: "distinct (map status_name (statuses d))" by (simp add: names_ok_def)
  from assms(2,3) have ne: "status_name st \<noteq> []" by (simp add: names_ok_def)
  with assms(5) have nb: "\<not> blank (JStr s)" by (simp add: blank_JStr)
  have f: "status_findUnique_id (status_id st) d = Some st"
    unfolding status_findUnique_id_def using di assms(3) by (rule find_by_key)
  have c: "status_findUnique_name (status_name st) d = Some st"
    unfolding status_findUnique_name_def using dn assms(3) by (rule find_by_key)
  have "map (\<lambda>y. if status_id y = status_id st then y\<lparr>status_name := status_name st\<rparr> else y)
          (statuses d) = statuses d"
    using di assms(3) by (rule map_update_same) simp
  then have u: "status_update_name (status_id st) (status_name st) d = d"
    by (simp add: status_update_name_def)
  show ?thesis
    using nb by (simp add: updateStatus_def assms(4) assms(5) f c u)
qed

lemma updateBoard_conflict_only:
  assumes "updateBoard id' name d
           = (Response 400 (Error ''Another board with this name already exists''), d')"
  shows "\<exists>i. parseInt id' = Some i
           \<and> (\<exists>x \<in> set (boards d). board_name x = trim (toString name) \<and> board_id x \<noteq> i)"
  using assms
  by (auto simp: updateBoard_def Let_def board_findFirst_name_not_id_def
      split: option.splits if_splits dest!: find_SomeD)

lemma updateStatus_conflict_only:
  assumes "updateStatus id' name d
           = (Response 400 (Error ''Another status with this name already exists''), d')"
  shows "\<exists>i. parseInt id' = Some i
           \<and> (\<exists>x \<in> set (statuses d). status_name x = trim (toString name) \<and> status_id x \<noteq> i)"
  using assms
  by (auto simp: updateStatus_def Let_def status_findUnique_name_def
      split: option.splits if_splits dest!: find_SomeD)

text \<open>
  Claim C10. Renaming to one's own name is not a conflict: in every reachable state, for
  every existing board (and likewise status) with id \<open>i\<close>, an update of \<open>i\<close> whose name
  trims to the current name answers 200 with the row, still so named, and changes no
  modelled field of the store. The conflict answer is only ever given when a row with a
  different id holds the target name.
\<close>

theorem rename_to_own_name:
  assumes "reachable d"
  shows "(b \<in> set (boards d) \<and> parseInt id' = Some (board_id b) \<and> trim s = board_name b \<longrightarrow>
      updateBoard id' (JStr s) d = (Response 200 (Board_json b), d))
   \<and> (st \<in> set (statuses d) \<and> parseInt id' = Some (status_id st) \<and> trim s = status_name st \<longrightarrow>
      updateStatus id' (JStr s) d = (Response 200 (Status_json st), d))
   \<and> (updateBoard id' name d
         = (Response 400 (Error ''Another board with this name already exists''), d') \<longrightarrow>
       (\<exists>i. parseInt id' = Some i
           \<and> (\<exists>x \<in> set (boards d). board_name x = trim (toString name) \<and> board_id x \<noteq> i)))
   \<and> (updateStatus id' name d
         = (Response 400 (Error ''Another status with this name already exists''), d') \<longrightarrow>
       (\<exists>i. parseInt id' = Some i
           \<and> (\<exists>x \<in> set (statuses d). status_name x = trim (toString name) \<and> status_id x \<noteq> i)))"
proof -
  note i = reachable_ids_ok [OF assms] and n = reachable_names_ok [OF assms]
  show ?thesis
  proof (intro conjI impI)
    assume "b \<in> set (boards d) \<and> parseInt id' = Some (board_id b) \<and> trim s = board_name b"
    then show "updateBoard id' (JStr s) d = (Response 200 (Board_json b), d)"
      using updateBoard_same_name [OF i n, of b id' s] by simp
  next
    assume "st \<in> set (statuses d) \<and> parseInt id' = Some (status_id st) \<and> trim s = status_name st"
    then show "updateStatus id' (JStr s) d = (Response 200 (Status_json st), d)"
      using updateStatus_same_name [OF i n, of st id' s] by simp
  next
    assume "updateBoard id' name d
         = (Response 400 (Error ''Another board with this name already exists''), d')"
    then show "\<exists>i. parseInt id' = Some i
           \<and> (\<exists>x \<in> set (boards d). board_name x = trim (toString name) \<and> board_id x \<noteq> i)"
      by (rule updateBoard_conflict_only)
  next
    assume "updateStatus id' name d
         = (Response 400 (Error ''Another status with this name already exists''), d')"
    then show "\<exists>i. parseInt id' = Some i
           \<and> (\<exists>x \<in> set (statuses d). status_name x = trim (toString name) \<and> status_id x \<noteq> i)"
      by (rule updateStatus_conflict_only)
  qed
qed

lemma rename_examples:
  "updateBoard (JNum 1) (JStr (js ''Sprint 2'')) sample_tasks_db
     = (Response 400 (Error ''Another board with this name already exists''), sample_tasks_db)"
  "updateStatus (JNum 1) (JStr (js ''DONE'')) sample_tasks_db
     = (Response 400 (Error ''Another status with this name already exists''), sample_tasks_db)"
  by (simp_all add: sample_tasks_db_eq js_eval store_eval controller_eval)

theorem rename_to_own_name_witness:
  "updateBoard (JNum 1) (JStr (js '' Sprint 1 '')) sample_tasks_db
     = (Response 200 (Board_json \<lparr>board_id = 1, board_name = js ''Sprint 1'', board_createdAt = 1\<rparr>),
        sample_tasks_db)
   \<and> updateStatus (JNum 1) (JStr (js ''TODO'')) sample_tasks_db
     = (Response 200 (Status_json \<lparr>status_id = 1, status_name = js ''TODO'', status_createdAt = 2\<rparr>),
        sample_tasks_db)
   \<and> (\<exists>i. parseInt (JNum 1) = Some i
         \<and> (\<exists>x \<in> set (boards sample_tasks_db).
               board_name x = trim (toString (JStr (js ''Sprint 2''))) \<and> board_id x \<noteq> i))
   \<and> (\<exists>i. parseInt (JNum 1) = Some i
         \<and> (\<exists>x \<in> set (statuses sample_tasks_db).
               status_name x = trim (toString (JStr (js ''DONE''))) \<and> status_id x \<noteq> i))"
proof -
  have b: "\<lparr>board_id = 1, board_name = js ''Sprint 1'', board_createdAt = 1\<rparr>
             \<in> set (boards sample_tasks_db)
           \<and> parseInt (JNum 1)
               = Some (board_id \<lparr>board_id = 1, board_name = js ''Sprint 1'', board_createdAt = 1\<rparr>)
           \<and> trim (js '' Sprint 1 '')
               = board_name \<lparr>board_id = 1, board_name = js ''Sprint 1'', board_createdAt = 1\<rparr>"
    by (simp add: sample_tasks_db_eq parseInt_examples) (simp add: js_eval)
  have s: "\<lparr>status_id = 1, status_name = js ''TODO'', status_createdAt = 2\<rparr>
             \<in> set (statuses sample_tasks_db)
           \<and> parseInt (JNum 1)
               = Some (status_id \<lparr>status_id = 1, status_name = js ''TODO'', status_createdAt = 2\<rparr>)
           \<and> trim (js ''TODO'')
               = status_name \<lparr>status_id = 1, status_name = js ''TODO'', status_createdAt = 2\<rparr>"
    by (simp add: sample_tasks_db_eq parseInt_examples trim_examples)
  note r = rename_to_own_name [OF reachable_sample_tasks_db]
  show ?thesis
    by (intro conjI)
      (rule r [THEN conjunct1, THEN mp, OF b],
       rule r [THEN conjunct2, THEN conjunct1, THEN mp, OF s],
       rule r [THEN conjunct2, THEN conjunct2, THEN conjunct1, THEN mp, OF rename_examples(1)],
       rule r [THEN conjunct2, THEN conjunct2, THEN conjunct2, THEN mp, OF rename_examples(2)])
qed

end
